theory Spec2Isabelle
  imports Complex_Main
begin

section \<open>Data model\<close>

text \<open>
  The embedding follows \<^verbatim>\<open>Core/SpatialPartition/uniformGridMath.cpp\<close> (Part 20) in its
  serial build (\<^verbatim>\<open>USE_TBB\<close> off, \<^verbatim>\<open>POISSON_TECHNIQUE_GAUSS_SEIDEL_RED_BLACK\<close>).

  Conventions.
  \<^item> A C \<^verbatim>\<open>float\<close> is an exact real number: rounding, overflow and infinities are
    not modelled. Where the source tests \<^verbatim>\<open>IsNan\<close> (the conditional gradient), a sample
    is a \<open>real option\<close> and \<open>None\<close> is the not-a-number value.
  \<^item> A \<^verbatim>\<open>size_t\<close> is a natural number. The source computes \<^verbatim>\<open>dims[a] - 1\<close>; on a grid
    with no point on some axis that wraps around in C and is \<open>0\<close> here, so the theorems
    below are stated for grids with at least one point per axis wherever it matters.
  \<^item> \<^verbatim>\<open>ASSERT\<close> is a debugging aid that compiles to nothing in a release build; the
    conditions it checks appear as hypotheses of the theorems that need them.
  \<^item> A \<^verbatim>\<open>for\<close> loop is \<open>forLoop start end step body\<close>; the grid a routine writes is
    the state threaded through its loops.
\<close>

datatype 'a Vec3 = Vec3 (vx: 'a) (vy: 'a) (vz: 'a)

text \<open>
  Modelled from the spec: \<^verbatim>\<open>Core/Math/vec3.h\<close> is not among the sources. \<open>Vec3\<close> is a
  3-vector with componentwise addition, subtraction and multiplication by a scalar
  (\<open>s *\<^sub>R v\<close> stands for both \<^verbatim>\<open>v * s\<close> and \<^verbatim>\<open>s * v\<close>).
\<close>

instantiation Vec3 :: (real_vector) real_vector
begin
definition zero_Vec3 :: "'a Vec3" where
  "zero_Vec3 = Vec3 0 0 0"
definition plus_Vec3 :: "'a Vec3 \<Rightarrow> 'a Vec3 \<Rightarrow> 'a Vec3" where
  "plus_Vec3 a b = Vec3 (vx a + vx b) (vy a + vy b) (vz a + vz b)"
definition minus_Vec3 :: "'a Vec3 \<Rightarrow> 'a Vec3 \<Rightarrow> 'a Vec3" where
  "minus_Vec3 a b = Vec3 (vx a - vx b) (vy a - vy b) (vz a - vz b)"
definition uminus_Vec3 :: "'a Vec3 \<Rightarrow> 'a Vec3" where
  "uminus_Vec3 a = Vec3 (- vx a) (- vy a) (- vz a)"
definition scaleR_Vec3 :: "real \<Rightarrow> 'a Vec3 \<Rightarrow> 'a Vec3" where
  "scaleR_Vec3 s a = Vec3 (s *\<^sub>R vx a) (s *\<^sub>R vy a) (s *\<^sub>R vz a)"
instance
  by standard
    (simp_all add: zero_Vec3_def plus_Vec3_def minus_Vec3_def uminus_Vec3_def scaleR_Vec3_def
      algebra_simps Vec3.expand)
end


text \<open>
  Modelled from the spec: \<^verbatim>\<open>Vec3::Magnitude\<close> is the Euclidean length. The macros
  \<^verbatim>\<open>Min2\<close> and \<^verbatim>\<open>Max2\<close>, which are not among the sources either, are \<open>min\<close> and \<open>max\<close>.
\<close>

definition Magnitude :: "real Vec3 \<Rightarrow> real" where
  "Magnitude v = sqrt (vx v * vx v + vy v * vy v + vz v * vz v)"

text \<open>
  Modelled from the spec: the macro \<^verbatim>\<open>POW2\<close> and the function \<^verbatim>\<open>Pow2\<close> are not among
  the sources; both square their argument.
\<close>

definition POW2 :: "real \<Rightarrow> real" where
  "POW2 a = a * a"

definition Pow2 :: "real \<Rightarrow> real" where
  "Pow2 a = a * a"

text \<open>The two constants of \<^verbatim>\<open><cfloat>\<close> for IEEE single precision.\<close>

definition FLT_EPSILON :: real where
  "FLT_EPSILON = 1 / 2 ^ 23"

definition FLT_MAX :: real where
  "FLT_MAX = (2 - 1 / 2 ^ 23) * 2 ^ 127"

text \<open>
  Modelled from the spec: \<^verbatim>\<open>Core/SpatialPartition/uniformGrid.h\<close> is not among the
  sources. A grid is a dense lattice: the number of points per axis, the cell spacing,
  and the samples in one array, X fastest, then Y, then Z.
\<close>

record 'a UniformGrid =
  mNumPoints :: "nat \<times> nat \<times> nat"
  mCellSpacing :: "real Vec3"
  mContents :: "'a list"

definition GetNumPoints :: "'a UniformGrid \<Rightarrow> nat \<Rightarrow> nat" where
  "GetNumPoints g a =
     (case mNumPoints g of (n0, n1, n2) \<Rightarrow> if a = 0 then n0 else if a = 1 then n1 else n2)"

definition GetCellSpacing :: "'a UniformGrid \<Rightarrow> real Vec3" where
  "GetCellSpacing g = mCellSpacing g"

definition Size :: "'a UniformGrid \<Rightarrow> nat" where
  "Size g = length (mContents g)"

definition GetGridCapacity :: "'a UniformGrid \<Rightarrow> nat" where
  "GetGridCapacity g = GetNumPoints g 0 * GetNumPoints g 1 * GetNumPoints g 2"

definition ShapeMatches :: "'a UniformGrid \<Rightarrow> 'b UniformGrid \<Rightarrow> bool" where
  "ShapeMatches g h = (mNumPoints g = mNumPoints h)"

datatype BoundaryConditionE = BC_NEUMANN | BC_DIRICHLET | BC_NUM

text \<open>
  \<^verbatim>\<open>GS_RED = 0\<close>, \<^verbatim>\<open>GS_BLACK = 1\<close>, \<^verbatim>\<open>GS_BOTH = 2\<close>; \<open>portionValue\<close> is the cast
  \<^verbatim>\<open>unsigned( redOrBlack )\<close>. The relaxation step asserts that its argument is one of
  the three.
\<close>

datatype GaussSeidelPortionE = GS_RED | GS_BLACK | GS_BOTH

fun portionValue :: "GaussSeidelPortionE \<Rightarrow> nat" where
  "portionValue GS_RED = 0"
| "portionValue GS_BLACK = 1"
| "portionValue GS_BOTH = 2"

text \<open>
  Modelled from the spec: \<^verbatim>\<open>Stats_Float\<close> is declared outside the sources; it holds the
  mean, the standard deviation, the minimum and the maximum of a set of values.
\<close>

record Stats_Float =
  mMean :: real
  mStdDev :: real
  mMin :: real
  mMax :: real

section \<open>Loops and index offsets\<close>

text \<open>
  \<^verbatim>\<open>for( i = start ; i < end ; i += step ) body\<close>. Every loop of the source steps by a
  positive constant (1, or \<^verbatim>\<open>iyStep\<close>, which is 1 or 2).
\<close>

function forLoop :: "nat \<Rightarrow> nat \<Rightarrow> nat \<Rightarrow> (nat \<Rightarrow> 's \<Rightarrow> 's) \<Rightarrow> 's \<Rightarrow> 's" where
  "forLoop i e st body s =
     (if i < e \<and> 0 < st then forLoop (i + st) e st body (body i s) else s)"
  by pat_completeness auto
termination
  by (relation "measure (\<lambda>(i, e, st, body, s). e - i)") auto

declare forLoop.simps [simp del]

text \<open>The values the loop variable takes, in order.\<close>

function forIndices :: "nat \<Rightarrow> nat \<Rightarrow> nat \<Rightarrow> nat list" where
  "forIndices i e st = (if i < e \<and> 0 < st then i # forIndices (i + st) e st else [])"
  by pat_completeness auto
termination
  by (relation "measure (\<lambda>(i, e, st). e - i)") auto

declare forIndices.simps [simp del]

text \<open>
  The macros \<^verbatim>\<open>ASSIGN_Z_OFFSETS\<close>, \<^verbatim>\<open>ASSIGN_YZ_OFFSETS\<close> and \<^verbatim>\<open>ASSIGN_XYZ_OFFSETS\<close>:
  the flat offsets of a point and of its six axis neighbours. \<open>numXY\<close> is
  \<^verbatim>\<open>dims[0] * dims[1]\<close>.
\<close>

definition offsetX0Y0Z0 :: "nat \<Rightarrow> nat \<Rightarrow> nat \<times> nat \<times> nat \<Rightarrow> nat" where
  "offsetX0Y0Z0 d0 numXY idx = (case idx of (ix, iy, iz) \<Rightarrow> ix + (d0 * iy + numXY * iz))"

definition offsetXMY0Z0 :: "nat \<Rightarrow> nat \<Rightarrow> nat \<times> nat \<times> nat \<Rightarrow> nat" where
  "offsetXMY0Z0 d0 numXY idx = (case idx of (ix, iy, iz) \<Rightarrow> ix - 1 + (d0 * iy + numXY * iz))"

definition offsetXPY0Z0 :: "nat \<Rightarrow> nat \<Rightarrow> nat \<times> nat \<times> nat \<Rightarrow> nat" where
  "offsetXPY0Z0 d0 numXY idx = (case idx of (ix, iy, iz) \<Rightarrow> ix + 1 + (d0 * iy + numXY * iz))"

definition offsetX0YMZ0 :: "nat \<Rightarrow> nat \<Rightarrow> nat \<times> nat \<times> nat \<Rightarrow> nat" where
  "offsetX0YMZ0 d0 numXY idx = (case idx of (ix, iy, iz) \<Rightarrow> ix + (d0 * (iy - 1) + numXY * iz))"

definition offsetX0YPZ0 :: "nat \<Rightarrow> nat \<Rightarrow> nat \<times> nat \<times> nat \<Rightarrow> nat" where
  "offsetX0YPZ0 d0 numXY idx = (case idx of (ix, iy, iz) \<Rightarrow> ix + (d0 * (iy + 1) + numXY * iz))"

definition offsetX0Y0ZM :: "nat \<Rightarrow> nat \<Rightarrow> nat \<times> nat \<times> nat \<Rightarrow> nat" where
  "offsetX0Y0ZM d0 numXY idx = (case idx of (ix, iy, iz) \<Rightarrow> ix + (d0 * iy + numXY * (iz - 1)))"

definition offsetX0Y0ZP :: "nat \<Rightarrow> nat \<Rightarrow> nat \<times> nat \<times> nat \<Rightarrow> nat" where
  "offsetX0Y0ZP d0 numXY idx = (case idx of (ix, iy, iz) \<Rightarrow> ix + (d0 * iy + numXY * (iz + 1)))"

text \<open>
  Every routine computes the reciprocal spacing by the same expression:
  \<^verbatim>\<open>Vec3( 1.0f / spacing.x , 1.0f / spacing.y , spacing.z > FLT_EPSILON ? 1.0f / spacing.z : 0.0f )\<close>.
  A division by a zero x or y spacing is infinite in the source and 0 here, so the
  theorems about computed values assume that the x and y spacings are not zero.
\<close>

definition reciprocalSpacing :: "real Vec3 \<Rightarrow> real Vec3" where
  "reciprocalSpacing spacing =
     Vec3 (1 / vx spacing) (1 / vy spacing)
          (if vz spacing > FLT_EPSILON then 1 / vz spacing else 0)"

definition halfReciprocalSpacing :: "real Vec3 \<Rightarrow> real Vec3" where
  "halfReciprocalSpacing spacing = 0.5 *\<^sub>R reciprocalSpacing spacing"

definition reciprocalSpacing2 :: "real Vec3 \<Rightarrow> real Vec3" where
  "reciprocalSpacing2 spacing =
     Vec3 (POW2 (vx (reciprocalSpacing spacing))) (POW2 (vy (reciprocalSpacing spacing)))
          (POW2 (vz (reciprocalSpacing spacing)))"

section \<open>The relaxation step: \<^verbatim>\<open>StepTowardVectorPoissonSolution\<close>\<close>

definition HalfSpacing2Sum :: "real Vec3 \<Rightarrow> real" where
  "HalfSpacing2Sum spacing =
     0.5 / (vx (reciprocalSpacing2 spacing) + vy (reciprocalSpacing2 spacing)
            + vz (reciprocalSpacing2 spacing))"

definition relax :: real where
  "relax = 1.72"

definition oneMinusRelax :: real where
  "oneMinusRelax = 1 - relax"

text \<open>\<^verbatim>\<open>ASSIGN_Y_SHIFT\<close> and \<^verbatim>\<open>iyStep\<close>.\<close>

definition idxYShift :: "nat \<Rightarrow> GaussSeidelPortionE \<Rightarrow> nat" where
  "idxYShift iz redOrBlack = (if iz mod 2 = portionValue redOrBlack then 1 else 0)"

definition iyStep :: "GaussSeidelPortionE \<Rightarrow> nat" where
  "iyStep redOrBlack = (if GS_BOTH = redOrBlack then 1 else 2)"

text \<open>The value \<^verbatim>\<open>vSolution\<close> computed at an interior point from the current grid.\<close>

definition vSolution ::
  "real Vec3 \<Rightarrow> nat \<Rightarrow> nat \<Rightarrow> real Vec3 list \<Rightarrow> real Vec3 list \<Rightarrow> nat \<times> nat \<times> nat \<Rightarrow> real Vec3" where
  "vSolution spacing d0 numXY lap soln idx =
     HalfSpacing2Sum spacing *\<^sub>R
       ( vx (reciprocalSpacing2 spacing) *\<^sub>R
           (soln ! offsetXPY0Z0 d0 numXY idx + soln ! offsetXMY0Z0 d0 numXY idx)
       + vy (reciprocalSpacing2 spacing) *\<^sub>R
           (soln ! offsetX0YPZ0 d0 numXY idx + soln ! offsetX0YMZ0 d0 numXY idx)
       + vz (reciprocalSpacing2 spacing) *\<^sub>R
           (soln ! offsetX0Y0ZP d0 numXY idx + soln ! offsetX0Y0ZM d0 numXY idx)
       - lap ! offsetX0Y0Z0 d0 numXY idx )"

definition updatedVal ::
  "real Vec3 \<Rightarrow> nat \<Rightarrow> nat \<Rightarrow> real Vec3 list \<Rightarrow> real Vec3 list \<Rightarrow> nat \<times> nat \<times> nat \<Rightarrow> real Vec3" where
  "updatedVal spacing d0 numXY lap soln idx =
     oneMinusRelax *\<^sub>R (soln ! offsetX0Y0Z0 d0 numXY idx)
       + relax *\<^sub>R vSolution spacing d0 numXY lap soln idx"

text \<open>
  The body of the innermost interior loop. The state is the solution array, the raw
  residual tallies (\<open>mMean\<close> holds the sum of the residuals and \<open>mStdDev\<close> the sum of
  their squares until they are cooked) and \<^verbatim>\<open>residualsCount\<close>.
\<close>

definition relaxPoint ::
  "real Vec3 \<Rightarrow> nat \<Rightarrow> nat \<Rightarrow> real Vec3 list \<Rightarrow> nat \<times> nat \<times> nat
     \<Rightarrow> real Vec3 list \<times> Stats_Float \<times> nat \<Rightarrow> real Vec3 list \<times> Stats_Float \<times> nat" where
  "relaxPoint spacing d0 numXY lap idx st =
     (case st of (soln, residualStats, residualsCount) \<Rightarrow>
        let residualVec = updatedVal spacing d0 numXY lap soln idx
                            - soln ! offsetX0Y0Z0 d0 numXY idx;
            residual = Magnitude residualVec
        in ( soln[offsetX0Y0Z0 d0 numXY idx := updatedVal spacing d0 numXY lap soln idx],
             residualStats\<lparr> mMean := mMean residualStats + residual,
                            mStdDev := mStdDev residualStats + Pow2 residual,
                            mMin := min residual (mMin residualStats),
                            mMax := max residual (mMax residualStats) \<rparr>,
             residualsCount + 1 ))"

text \<open>The interior loop nest, for any loop body.\<close>

definition interiorLoop ::
  "nat \<Rightarrow> nat \<Rightarrow> nat \<Rightarrow> nat \<Rightarrow> nat \<Rightarrow> GaussSeidelPortionE
     \<Rightarrow> (nat \<times> nat \<times> nat \<Rightarrow> 's \<Rightarrow> 's) \<Rightarrow> 's \<Rightarrow> 's" where
  "interiorLoop d0 d1 d2 izStart izEnd redOrBlack body =
     forLoop (max 1 izStart) (min (d2 - 1) izEnd) 1 (\<lambda>iz.
       forLoop (1 + idxYShift iz redOrBlack) (d1 - 1) (iyStep redOrBlack) (\<lambda>iy.
         forLoop 1 (d0 - 1) 1 (\<lambda>ix. body (ix, iy, iz))))"

text \<open>
  Modelled from the spec: \<^verbatim>\<open>Clamp\<close> (\<^verbatim>\<open>Core/Math/math.h\<close>) is not among the sources; it
  limits its first argument to the range given by the other two.
\<close>

definition Clamp :: "nat \<Rightarrow> nat \<Rightarrow> nat \<Rightarrow> nat" where
  "Clamp a lo hi = min (max a lo) hi"

text \<open>\<^verbatim>\<open>ASSIGN_VALUES_ON_BOUNDARY_POINTS\<close>.\<close>

definition ASSIGN_VALUES_ON_BOUNDARY_POINTS ::
  "nat \<Rightarrow> nat \<Rightarrow> nat \<Rightarrow> nat \<times> nat \<times> nat \<Rightarrow> real Vec3 list \<Rightarrow> real Vec3 list" where
  "ASSIGN_VALUES_ON_BOUNDARY_POINTS d0 d1 d2 idx soln =
     (case idx of (ix, iy, iz) \<Rightarrow>
        let idxInterior0 = Clamp ix 1 (d0 - 1 - 1);
            idxInterior1 = Clamp iy 1 (d1 - 1 - 1);
            idxInterior2 = Clamp iz 1 (d2 - 1 - 1);
            offsetInterior = idxInterior0 + d0 * idxInterior1 + (d0 * d1) * idxInterior2
        in soln[offsetX0Y0Z0 d0 (d0 * d1) idx := soln ! offsetInterior])"

text \<open>The six faces, in the order of the source.\<close>

definition boundaryMinusX ::
  "nat \<Rightarrow> nat \<Rightarrow> nat \<Rightarrow> nat \<Rightarrow> nat \<Rightarrow> GaussSeidelPortionE
     \<Rightarrow> (nat \<times> nat \<times> nat \<Rightarrow> 's \<Rightarrow> 's) \<Rightarrow> 's \<Rightarrow> 's" where
  "boundaryMinusX d0 d1 d2 izStart izEnd redOrBlack body =
     forLoop izStart izEnd 1 (\<lambda>iz.
       forLoop (idxYShift iz redOrBlack) d1 (iyStep redOrBlack) (\<lambda>iy. body (0, iy, iz)))"

definition boundaryMinusY ::
  "nat \<Rightarrow> nat \<Rightarrow> nat \<Rightarrow> nat \<Rightarrow> nat \<Rightarrow> GaussSeidelPortionE
     \<Rightarrow> (nat \<times> nat \<times> nat \<Rightarrow> 's \<Rightarrow> 's) \<Rightarrow> 's \<Rightarrow> 's" where
  "boundaryMinusY d0 d1 d2 izStart izEnd redOrBlack body =
     forLoop izStart izEnd 1 (\<lambda>iz. forLoop 0 d0 1 (\<lambda>ix. body (ix, 0, iz)))"

definition boundaryMinusZ ::
  "nat \<Rightarrow> nat \<Rightarrow> nat \<Rightarrow> nat \<Rightarrow> nat \<Rightarrow> GaussSeidelPortionE
     \<Rightarrow> (nat \<times> nat \<times> nat \<Rightarrow> 's \<Rightarrow> 's) \<Rightarrow> 's \<Rightarrow> 's" where
  "boundaryMinusZ d0 d1 d2 izStart izEnd redOrBlack body s =
     (if 0 = izStart
      then forLoop (idxYShift 0 redOrBlack) d1 (iyStep redOrBlack) (\<lambda>iy.
             forLoop 0 d0 1 (\<lambda>ix. body (ix, iy, 0))) s
      else s)"

definition boundaryPlusX ::
  "nat \<Rightarrow> nat \<Rightarrow> nat \<Rightarrow> nat \<Rightarrow> nat \<Rightarrow> GaussSeidelPortionE
     \<Rightarrow> (nat \<times> nat \<times> nat \<Rightarrow> 's \<Rightarrow> 's) \<Rightarrow> 's \<Rightarrow> 's" where
  "boundaryPlusX d0 d1 d2 izStart izEnd redOrBlack body =
     forLoop izStart izEnd 1 (\<lambda>iz.
       forLoop 0 d1 (iyStep redOrBlack) (\<lambda>iy. body (d0 - 1, iy, iz)))"

definition boundaryPlusY ::
  "nat \<Rightarrow> nat \<Rightarrow> nat \<Rightarrow> nat \<Rightarrow> nat \<Rightarrow> GaussSeidelPortionE
     \<Rightarrow> (nat \<times> nat \<times> nat \<Rightarrow> 's \<Rightarrow> 's) \<Rightarrow> 's \<Rightarrow> 's" where
  "boundaryPlusY d0 d1 d2 izStart izEnd redOrBlack body =
     forLoop izStart izEnd 1 (\<lambda>iz. forLoop 0 d0 1 (\<lambda>ix. body (ix, d1 - 1, iz)))"

definition boundaryPlusZ ::
  "nat \<Rightarrow> nat \<Rightarrow> nat \<Rightarrow> nat \<Rightarrow> nat \<Rightarrow> GaussSeidelPortionE
     \<Rightarrow> (nat \<times> nat \<times> nat \<Rightarrow> 's \<Rightarrow> 's) \<Rightarrow> 's \<Rightarrow> 's" where
  "boundaryPlusZ d0 d1 d2 izStart izEnd redOrBlack body s =
     (if izEnd = d2
      then forLoop (idxYShift (d2 - 1) redOrBlack) d1 (iyStep redOrBlack) (\<lambda>iy.
             forLoop 0 d0 1 (\<lambda>ix. body (ix, iy, d2 - 1))) s
      else s)"

definition boundaryLoops ::
  "nat \<Rightarrow> nat \<Rightarrow> nat \<Rightarrow> nat \<Rightarrow> nat \<Rightarrow> GaussSeidelPortionE
     \<Rightarrow> (nat \<times> nat \<times> nat \<Rightarrow> 's \<Rightarrow> 's) \<Rightarrow> 's \<Rightarrow> 's" where
  "boundaryLoops d0 d1 d2 izStart izEnd redOrBlack body s =
     boundaryPlusZ d0 d1 d2 izStart izEnd redOrBlack body
       (boundaryPlusY d0 d1 d2 izStart izEnd redOrBlack body
         (boundaryPlusX d0 d1 d2 izStart izEnd redOrBlack body
           (boundaryMinusZ d0 d1 d2 izStart izEnd redOrBlack body
             (boundaryMinusY d0 d1 d2 izStart izEnd redOrBlack body
               (boundaryMinusX d0 d1 d2 izStart izEnd redOrBlack body s)))))"

text \<open>
  Cooking the raw tallies at the end of a pass. \<^verbatim>\<open>fsqrtf\<close> is not among the sources
  and is a parameter of the model.
\<close>

definition cookResidualStats :: "(real \<Rightarrow> real) \<Rightarrow> Stats_Float \<Rightarrow> nat \<Rightarrow> Stats_Float" where
  "cookResidualStats fsqrtf residualStats residualsCount =
     (let mean = mMean residualStats / real residualsCount;
          mean2 = mStdDev residualStats / real residualsCount;
          variance = mean2 - Pow2 mean
      in residualStats\<lparr> mMean := mean, mStdDev := fsqrtf variance \<rparr>)"

definition StepTowardVectorPoissonSolution ::
  "(real \<Rightarrow> real) \<Rightarrow> real Vec3 UniformGrid \<Rightarrow> real Vec3 UniformGrid \<Rightarrow> nat \<Rightarrow> nat
     \<Rightarrow> GaussSeidelPortionE \<Rightarrow> BoundaryConditionE \<Rightarrow> real Vec3 UniformGrid \<times> Stats_Float" where
  "StepTowardVectorPoissonSolution fsqrtf soln lap izStart izEnd redOrBlack boundaryCondition =
     (let spacing = GetCellSpacing lap;
          d0 = GetNumPoints lap 0;
          d1 = GetNumPoints lap 1;
          d2 = GetNumPoints lap 2;
          numXY = d0 * d1;
          tallied = interiorLoop d0 d1 d2 izStart izEnd redOrBlack
                      (relaxPoint spacing d0 numXY (mContents lap))
                      (mContents soln,
                       \<lparr> mMean = 0, mStdDev = 0, mMin = FLT_MAX, mMax = - FLT_MAX \<rparr>,
                       0);
          interior = fst tallied;
          residualStats = fst (snd tallied);
          residualsCount = snd (snd tallied);
          bounded = (if BC_NEUMANN = boundaryCondition
                     then boundaryLoops d0 d1 d2 izStart izEnd redOrBlack
                            (ASSIGN_VALUES_ON_BOUNDARY_POINTS d0 d1 d2) interior
                     else interior)
      in ( soln\<lparr> mContents := bounded \<rparr>,
           if residualsCount \<noteq> 0
           then cookResidualStats fsqrtf residualStats residualsCount
           else residualStats ))"

section \<open>The solver loop: \<^verbatim>\<open>SolveVectorPoisson\<close>\<close>

definition MAX3 :: "nat \<Rightarrow> nat \<Rightarrow> nat \<Rightarrow> nat" where
  "MAX3 a b c = max (max a b) c"

text \<open>The body of the loop: a red pass, then a black pass, each over all of z.\<close>

definition solveIteration ::
  "(real \<Rightarrow> real) \<Rightarrow> real Vec3 UniformGrid \<Rightarrow> BoundaryConditionE
     \<Rightarrow> real Vec3 UniformGrid \<times> Stats_Float \<Rightarrow> real Vec3 UniformGrid \<times> Stats_Float" where
  "solveIteration fsqrtf lap boundaryCondition st =
     (let numZ = GetNumPoints (fst st) 2;
          red = StepTowardVectorPoissonSolution fsqrtf (fst st) lap 0 numZ GS_RED boundaryCondition
      in StepTowardVectorPoissonSolution fsqrtf (fst red) lap 0 numZ GS_BLACK boundaryCondition)"

definition SolveVectorPoisson ::
  "(real \<Rightarrow> real) \<Rightarrow> real Vec3 UniformGrid \<Rightarrow> real Vec3 UniformGrid \<Rightarrow> nat
     \<Rightarrow> BoundaryConditionE \<Rightarrow> Stats_Float \<Rightarrow> real Vec3 UniformGrid \<times> Stats_Float" where
  "SolveVectorPoisson fsqrtf soln lap numSteps boundaryCondition residualStats =
     (let gridDimMax = MAX3 (GetNumPoints soln 0) (GetNumPoints soln 1) (GetNumPoints soln 2);
          numStepsAuto = 2 * gridDimMax;
          maxIters = (if numSteps > 0 then numSteps else numStepsAuto)
      in forLoop 0 maxIters 1 (\<lambda>iter. solveIteration fsqrtf lap boundaryCondition)
           (soln, residualStats))"

section \<open>The gradient: \<^verbatim>\<open>ComputeGradient\<close>\<close>

text \<open>The three centred differences of \<^verbatim>\<open>ComputeGradientInteriorSlice\<close>.\<close>

definition centeredGradient ::
  "real Vec3 \<Rightarrow> nat \<Rightarrow> nat \<Rightarrow> real list \<Rightarrow> nat \<times> nat \<times> nat \<Rightarrow> real Vec3" where
  "centeredGradient spacing d0 numXY val idx =
     Vec3 ((val ! offsetXPY0Z0 d0 numXY idx - val ! offsetXMY0Z0 d0 numXY idx)
             * vx (halfReciprocalSpacing spacing))
          ((val ! offsetX0YPZ0 d0 numXY idx - val ! offsetX0YMZ0 d0 numXY idx)
             * vy (halfReciprocalSpacing spacing))
          ((val ! offsetX0Y0ZP d0 numXY idx - val ! offsetX0Y0ZM d0 numXY idx)
             * vz (halfReciprocalSpacing spacing))"

definition ComputeGradientInteriorSlice ::
  "real Vec3 UniformGrid \<Rightarrow> real UniformGrid \<Rightarrow> nat \<Rightarrow> nat \<Rightarrow> real Vec3 UniformGrid" where
  "ComputeGradientInteriorSlice gradientGrid val izStart izEnd =
     (let spacing = GetCellSpacing val;
          d0 = GetNumPoints val 0;
          d1 = GetNumPoints val 1;
          d2 = GetNumPoints val 2;
          numXY = d0 * d1
      in gradientGrid\<lparr> mContents :=
           forLoop izStart izEnd 1 (\<lambda>iz.
             forLoop 1 (d1 - 1) 1 (\<lambda>iy.
               forLoop 1 (d0 - 1) 1 (\<lambda>ix gradients.
                 gradients[offsetX0Y0Z0 d0 numXY (ix, iy, iz) :=
                   centeredGradient spacing d0 numXY (mContents val) (ix, iy, iz)])))
             (mContents gradientGrid) \<rparr>)"

text \<open>\<^verbatim>\<open>COMPUTE_FINITE_PARTIAL_DIFFERENTIALS_AT_BOUNDARIES\<close> of \<^verbatim>\<open>ComputeGradient\<close>.\<close>

definition boundaryGradient ::
  "real Vec3 \<Rightarrow> nat \<Rightarrow> nat \<Rightarrow> nat \<Rightarrow> real list \<Rightarrow> nat \<times> nat \<times> nat \<Rightarrow> real Vec3" where
  "boundaryGradient spacing d0 d1 d2 val idx =
     (case idx of (ix, iy, iz) \<Rightarrow>
       let numXY = d0 * d1 in
       Vec3
        (if ix = 0 then
           (val ! offsetXPY0Z0 d0 numXY idx - val ! offsetX0Y0Z0 d0 numXY idx)
             * vx (reciprocalSpacing spacing)
         else if ix = d0 - 1 then
           (val ! offsetX0Y0Z0 d0 numXY idx - val ! offsetXMY0Z0 d0 numXY idx)
             * vx (reciprocalSpacing spacing)
         else
           (val ! offsetXPY0Z0 d0 numXY idx - val ! offsetXMY0Z0 d0 numXY idx)
             * vx (halfReciprocalSpacing spacing))
        (if iy = 0 then
           (val ! offsetX0YPZ0 d0 numXY idx - val ! offsetX0Y0Z0 d0 numXY idx)
             * vy (reciprocalSpacing spacing)
         else if iy = d1 - 1 then
           (val ! offsetX0Y0Z0 d0 numXY idx - val ! offsetX0YMZ0 d0 numXY idx)
             * vy (reciprocalSpacing spacing)
         else
           (val ! offsetX0YPZ0 d0 numXY idx - val ! offsetX0YMZ0 d0 numXY idx)
             * vy (halfReciprocalSpacing spacing))
        (if iz = 0 then
           (val ! offsetX0Y0ZP d0 numXY idx - val ! offsetX0Y0Z0 d0 numXY idx)
             * vz (reciprocalSpacing spacing)
         else if iz = d2 - 1 then
           (val ! offsetX0Y0Z0 d0 numXY idx - val ! offsetX0Y0ZM d0 numXY idx)
             * vz (reciprocalSpacing spacing)
         else
           (val ! offsetX0Y0ZP d0 numXY idx - val ! offsetX0Y0ZM d0 numXY idx)
             * vz (halfReciprocalSpacing spacing)))"

text \<open>The six face loops of \<^verbatim>\<open>ComputeGradient\<close>: -X, -Y, -Z, +X, +Y, +Z.\<close>

definition gradientFaceLoops ::
  "nat \<Rightarrow> nat \<Rightarrow> nat \<Rightarrow> (nat \<times> nat \<times> nat \<Rightarrow> 's \<Rightarrow> 's) \<Rightarrow> 's \<Rightarrow> 's" where
  "gradientFaceLoops d0 d1 d2 body s =
     (let s1 = forLoop 0 d2 1 (\<lambda>iz. forLoop 0 d1 1 (\<lambda>iy. body (0, iy, iz))) s;
          s2 = forLoop 0 d2 1 (\<lambda>iz. forLoop 0 d0 1 (\<lambda>ix. body (ix, 0, iz))) s1;
          s3 = forLoop 0 d1 1 (\<lambda>iy. forLoop 0 d0 1 (\<lambda>ix. body (ix, iy, 0))) s2;
          s4 = forLoop 0 d2 1 (\<lambda>iz. forLoop 0 d1 1 (\<lambda>iy. body (d0 - 1, iy, iz))) s3;
          s5 = forLoop 0 d2 1 (\<lambda>iz. forLoop 0 d0 1 (\<lambda>ix. body (ix, d1 - 1, iz))) s4
      in forLoop 0 d1 1 (\<lambda>iy. forLoop 0 d0 1 (\<lambda>ix. body (ix, iy, d2 - 1))) s5)"

definition ComputeGradient ::
  "real Vec3 UniformGrid \<Rightarrow> real UniformGrid \<Rightarrow> real Vec3 UniformGrid" where
  "ComputeGradient gradientGrid scalarVals =
     (let spacing = GetCellSpacing scalarVals;
          d0 = GetNumPoints scalarVals 0;
          d1 = GetNumPoints scalarVals 1;
          d2 = GetNumPoints scalarVals 2;
          numXY = d0 * d1;
          interior = ComputeGradientInteriorSlice gradientGrid scalarVals 1 (d2 - 1)
      in interior\<lparr> mContents :=
           gradientFaceLoops d0 d1 d2
             (\<lambda>idx gradients.
                gradients[offsetX0Y0Z0 d0 numXY idx :=
                  boundaryGradient spacing d0 d1 d2 (mContents scalarVals) idx])
             (mContents interior) \<rparr>)"

section \<open>The conditional gradient: \<^verbatim>\<open>ComputeGradientConditionally\<close>\<close>

text \<open>
  Modelled from the spec: \<^verbatim>\<open>UNIFORM_GRID_INVALID_VALUE\<close> and \<^verbatim>\<open>IsNan\<close> are not among
  the sources; the invalid sentinel is the not-a-number value and \<^verbatim>\<open>IsNan\<close> recognises
  it. Arithmetic on a not-a-number value gives a not-a-number value.
\<close>

type_synonym float = "real option"

definition UNIFORM_GRID_INVALID_VALUE :: float where
  "UNIFORM_GRID_INVALID_VALUE = None"

definition IsNan :: "float \<Rightarrow> bool" where
  "IsNan v = (v = None)"

definition floatSub :: "float \<Rightarrow> float \<Rightarrow> float" where
  "floatSub a b = (case a of None \<Rightarrow> None | Some u \<Rightarrow> (case b of None \<Rightarrow> None | Some v \<Rightarrow> Some (u - v)))"

definition floatMul :: "float \<Rightarrow> real \<Rightarrow> float" where
  "floatMul a r = (case a of None \<Rightarrow> None | Some u \<Rightarrow> Some (u * r))"

text \<open>
  \<^verbatim>\<open>SET_PARTIAL_DERIVATIVE_CONDITIONALLY( componentIndex , minusIndex , plusIndex , component )\<close>.
  \<open>index\<close> is \<^verbatim>\<open>index[ componentIndex ]\<close> and \<open>dimMinus1\<close> is \<^verbatim>\<open>dimsMinus1[ componentIndex ]\<close>: the
  macro reads \<^verbatim>\<open>scalarVals\<close> at these bare axis indices. \<open>old\<close> is the component before
  the macro runs. The first \<^verbatim>\<open>if\<close> (centred difference) is followed by an
  \<^verbatim>\<open>if\<close>/\<^verbatim>\<open>else\<close> that assigns the component in both of its branches.
\<close>

definition SET_PARTIAL_DERIVATIVE_CONDITIONALLY ::
  "float list \<Rightarrow> nat \<Rightarrow> nat \<Rightarrow> nat \<Rightarrow> nat \<Rightarrow> nat \<Rightarrow> real \<Rightarrow> real \<Rightarrow> float \<Rightarrow> float" where
  "SET_PARTIAL_DERIVATIVE_CONDITIONALLY scalarVals index dimMinus1 minusIndex plusIndex
       offset halfReciprocal reciprocal old =
     (if IsNan (scalarVals ! index) then UNIFORM_GRID_INVALID_VALUE
      else
        let idxUpper = (if index < dimMinus1 \<and> \<not> IsNan (scalarVals ! (index + 1))
                        then plusIndex else offset);
            idxLower = (if index > 0 \<and> \<not> IsNan (scalarVals ! (index - 1))
                        then minusIndex else offset);
            idxDiff = idxUpper - idxLower;
            afterFirstIf = (if 2 = idxDiff
                            then floatMul (floatSub (scalarVals ! idxUpper) (scalarVals ! idxLower))
                                   halfReciprocal
                            else old)
        in if 1 = idxDiff
           then floatMul (floatSub (scalarVals ! idxUpper) (scalarVals ! idxLower)) reciprocal
           else UNIFORM_GRID_INVALID_VALUE)"

definition conditionalGradient ::
  "real Vec3 \<Rightarrow> nat \<Rightarrow> nat \<Rightarrow> nat \<Rightarrow> float list \<Rightarrow> nat \<times> nat \<times> nat \<Rightarrow> float Vec3 \<Rightarrow> float Vec3" where
  "conditionalGradient spacing d0 d1 d2 scalarVals idx gradient =
     (case idx of (ix, iy, iz) \<Rightarrow>
       let numXY = d0 * d1 in
       Vec3
        (SET_PARTIAL_DERIVATIVE_CONDITIONALLY scalarVals ix (d0 - 1)
           (offsetXMY0Z0 d0 numXY idx) (offsetXPY0Z0 d0 numXY idx) (offsetX0Y0Z0 d0 numXY idx)
           (vx (halfReciprocalSpacing spacing)) (vx (reciprocalSpacing spacing)) (vx gradient))
        (SET_PARTIAL_DERIVATIVE_CONDITIONALLY scalarVals iy (d1 - 1)
           (offsetX0YMZ0 d0 numXY idx) (offsetX0YPZ0 d0 numXY idx) (offsetX0Y0Z0 d0 numXY idx)
           (vy (halfReciprocalSpacing spacing)) (vy (reciprocalSpacing spacing)) (vy gradient))
        (SET_PARTIAL_DERIVATIVE_CONDITIONALLY scalarVals iz (d2 - 1)
           (offsetX0Y0ZM d0 numXY idx) (offsetX0Y0ZP d0 numXY idx) (offsetX0Y0Z0 d0 numXY idx)
           (vz (halfReciprocalSpacing spacing)) (vz (reciprocalSpacing spacing)) (vz gradient)))"

definition ComputeGradientConditionallySlice ::
  "float Vec3 UniformGrid \<Rightarrow> float UniformGrid \<Rightarrow> nat \<Rightarrow> nat \<Rightarrow> float Vec3 UniformGrid" where
  "ComputeGradientConditionallySlice gradientGrid scalarVals izStart izEnd =
     (let spacing = GetCellSpacing scalarVals;
          d0 = GetNumPoints scalarVals 0;
          d1 = GetNumPoints scalarVals 1;
          d2 = GetNumPoints scalarVals 2;
          numXY = d0 * d1
      in gradientGrid\<lparr> mContents :=
           forLoop izStart izEnd 1 (\<lambda>iz.
             forLoop 1 d1 1 (\<lambda>iy.
               forLoop 1 d0 1 (\<lambda>ix gradients.
                 gradients[offsetX0Y0Z0 d0 numXY (ix, iy, iz) :=
                   conditionalGradient spacing d0 d1 d2 (mContents scalarVals) (ix, iy, iz)
                     (gradients ! offsetX0Y0Z0 d0 numXY (ix, iy, iz))])))
             (mContents gradientGrid) \<rparr>)"

definition ComputeGradientConditionally ::
  "float Vec3 UniformGrid \<Rightarrow> float UniformGrid \<Rightarrow> float Vec3 UniformGrid" where
  "ComputeGradientConditionally gradient scalarVals =
     ComputeGradientConditionallySlice gradient scalarVals 1 (GetNumPoints scalarVals 2)"

section \<open>The curl: \<^verbatim>\<open>ComputeCurlFromJacobian\<close>\<close>


section \<open>The Jacobian: \<^verbatim>\<open>ComputeJacobian\<close>\<close>




section \<open>The Laplacian: \<^verbatim>\<open>ComputeLaplacian\<close>\<close>










section \<open>Statistics: \<^verbatim>\<open>FindValueStats\<close>\<close>

text \<open>
  Modelled from the spec: \<^verbatim>\<open>OffsetFromIndices\<close> belongs to the grid container; the flat
  offset of a point is \<open>x + dims.x * y + dims.x * dims.y * z\<close>. The result is the tuple
  \<open>(valMin, valMax, valMean, valStdDev)\<close>; \<open>sum1\<close> is the source's \<^verbatim>\<open>sum\<close>.
\<close>

definition OffsetFromIndices :: "'a UniformGrid \<Rightarrow> nat \<times> nat \<times> nat \<Rightarrow> nat" where
  "OffsetFromIndices g idx =
     offsetX0Y0Z0 (GetNumPoints g 0) (GetNumPoints g 0 * GetNumPoints g 1) idx"

definition FindValueStats :: "real UniformGrid \<Rightarrow> real \<times> real \<times> real \<times> real" where
  "FindValueStats scalarGrid =
     (let tallied =
            forLoop 0 (GetNumPoints scalarGrid 2) 1 (\<lambda>iz.
              forLoop 0 (GetNumPoints scalarGrid 1) 1 (\<lambda>iy.
                forLoop 0 (GetNumPoints scalarGrid 0) 1 (\<lambda>ix acc.
                  (case acc of (valMin, valMax, sum1, sum2) \<Rightarrow>
                    let value = mContents scalarGrid ! OffsetFromIndices scalarGrid (ix, iy, iz)
                    in (min value valMin, max value valMax, sum1 + value, sum2 + value * value)))))
              (FLT_MAX, - FLT_MAX, 0, 0);
          valMin = fst tallied;
          valMax = fst (snd tallied);
          sum1 = fst (snd (snd tallied));
          sum2 = snd (snd (snd tallied));
          numValues = Size scalarGrid;
          valMean = sum1 / real numValues;
          mean2 = sum2 / real numValues;
          mean_2 = valMean * valMean;
          variance = mean2 - mean_2
      in (valMin, valMax, valMean, sqrt (max variance 0)))"

section \<open>Traversals\<close>

text \<open>
  The points a loop nest visits, in order: the nest run with a body that only records
  its argument. \<open>interiorLoop_fold\<close> and \<open>boundaryLoops_fold\<close> below show that running
  a nest with any body is folding that body over these lists.
\<close>

definition interiorVisits ::
  "nat \<Rightarrow> nat \<Rightarrow> nat \<Rightarrow> nat \<Rightarrow> nat \<Rightarrow> GaussSeidelPortionE \<Rightarrow> (nat \<times> nat \<times> nat) list" where
  "interiorVisits d0 d1 d2 izStart izEnd redOrBlack =
     interiorLoop d0 d1 d2 izStart izEnd redOrBlack (\<lambda>p tr. tr @ [p]) []"

definition boundaryVisits ::
  "nat \<Rightarrow> nat \<Rightarrow> nat \<Rightarrow> nat \<Rightarrow> nat \<Rightarrow> GaussSeidelPortionE \<Rightarrow> (nat \<times> nat \<times> nat) list" where
  "boundaryVisits d0 d1 d2 izStart izEnd redOrBlack =
     boundaryLoops d0 d1 d2 izStart izEnd redOrBlack (\<lambda>p tr. tr @ [p]) []"

text \<open>Three nested loops as one list of index triples (the innermost index first).\<close>

definition nest3 ::
  "nat list \<Rightarrow> (nat \<Rightarrow> nat list) \<Rightarrow> nat list \<Rightarrow> (nat \<times> nat \<times> nat) list" where
  "nest3 zs ys xs =
     concat (map (\<lambda>iz. concat (map (\<lambda>iy. map (\<lambda>ix. (ix, iy, iz)) xs) (ys iz))) zs)"

text \<open>The points of the six face loops, face after face.\<close>

definition faceLists ::
  "nat \<Rightarrow> nat \<Rightarrow> nat \<Rightarrow> nat \<Rightarrow> nat \<Rightarrow> GaussSeidelPortionE \<Rightarrow> (nat \<times> nat \<times> nat) list" where
  "faceLists d0 d1 d2 izStart izEnd redOrBlack =
     nest3 [izStart..<izEnd] (\<lambda>iz. forIndices (idxYShift iz redOrBlack) d1 (iyStep redOrBlack)) [0]
   @ nest3 [izStart..<izEnd] (\<lambda>iz. [0]) [0..<d0]
   @ (if 0 = izStart
      then nest3 [0] (\<lambda>iz. forIndices (idxYShift 0 redOrBlack) d1 (iyStep redOrBlack)) [0..<d0]
      else [])
   @ nest3 [izStart..<izEnd] (\<lambda>iz. forIndices 0 d1 (iyStep redOrBlack)) [d0 - 1]
   @ nest3 [izStart..<izEnd] (\<lambda>iz. [d1 - 1]) [0..<d0]
   @ (if izEnd = d2
      then nest3 [d2 - 1] (\<lambda>iz. forIndices (idxYShift (d2 - 1) redOrBlack) d1 (iyStep redOrBlack)) [0..<d0]
      else [])"

text \<open>The points of the six face loops of \<^verbatim>\<open>ComputeGradient\<close>.\<close>

definition gradientFaceList :: "nat \<Rightarrow> nat \<Rightarrow> nat \<Rightarrow> (nat \<times> nat \<times> nat) list" where
  "gradientFaceList d0 d1 d2 =
     nest3 [0..<d2] (\<lambda>iz. [0..<d1]) [0]
   @ nest3 [0..<d2] (\<lambda>iz. [0]) [0..<d0]
   @ nest3 [0] (\<lambda>iz. [0..<d1]) [0..<d0]
   @ nest3 [0..<d2] (\<lambda>iz. [0..<d1]) [d0 - 1]
   @ nest3 [0..<d2] (\<lambda>iz. [d1 - 1]) [0..<d0]
   @ nest3 [d2 - 1] (\<lambda>iz. [0..<d1]) [0..<d0]"

text \<open>What \<open>relaxPoint\<close> does to the solution array alone.\<close>

definition relaxWrite ::
  "real Vec3 \<Rightarrow> nat \<Rightarrow> nat \<Rightarrow> real Vec3 list \<Rightarrow> nat \<times> nat \<times> nat
     \<Rightarrow> real Vec3 list \<Rightarrow> real Vec3 list" where
  "relaxWrite spacing d0 numXY lap idx soln =
     soln[offsetX0Y0Z0 d0 numXY idx := updatedVal spacing d0 numXY lap soln idx]"

section \<open>The update rule in the words of the specification\<close>

text \<open>
  The interior update as the specification states it, with \<open>1 / spacing\<^sup>2\<close> on every
  axis and no special case: \<open>new = (1 - \<omega>) old + \<omega> H (\<Sum> (soln[+1] + soln[-1]) / spacing\<^sup>2
  - source)\<close> with \<open>H = 0.5 / \<Sum> (1 / spacing\<^sup>2)\<close> and \<open>\<omega> = 1.72\<close>. It is compared with
  \<open>updatedVal\<close> below.
\<close>

definition claimedUpdate ::
  "real Vec3 \<Rightarrow> nat \<Rightarrow> nat \<Rightarrow> real Vec3 list \<Rightarrow> real Vec3 list \<Rightarrow> nat \<times> nat \<times> nat \<Rightarrow> real Vec3" where
  "claimedUpdate spacing d0 numXY lap soln idx =
     (case idx of (ix, iy, iz) \<Rightarrow>
        (1 - 1.72) *\<^sub>R (soln ! offsetX0Y0Z0 d0 numXY (ix, iy, iz))
        + 1.72 *\<^sub>R
          ((0.5 / (1 / (vx spacing)\<^sup>2 + 1 / (vy spacing)\<^sup>2 + 1 / (vz spacing)\<^sup>2)) *\<^sub>R
            ( (1 / (vx spacing)\<^sup>2) *\<^sub>R (soln ! offsetX0Y0Z0 d0 numXY (ix + 1, iy, iz)
                                  + soln ! offsetX0Y0Z0 d0 numXY (ix - 1, iy, iz))
            + (1 / (vy spacing)\<^sup>2) *\<^sub>R (soln ! offsetX0Y0Z0 d0 numXY (ix, iy + 1, iz)
                                  + soln ! offsetX0Y0Z0 d0 numXY (ix, iy - 1, iz))
            + (1 / (vz spacing)\<^sup>2) *\<^sub>R (soln ! offsetX0Y0Z0 d0 numXY (ix, iy, iz + 1)
                                  + soln ! offsetX0Y0Z0 d0 numXY (ix, iy, iz - 1))
            - lap ! offsetX0Y0Z0 d0 numXY (ix, iy, iz) )))"

section \<open>Example grids\<close>

text \<open>
  Small grids on which the theorems are instantiated: \<open>unitGrid\<close> has \<open>n0 \<times> n1 \<times> n2\<close>
  points, the given spacing and the zero vector everywhere; \<open>spikeGrid\<close> differs from
  it in one sample.
\<close>

definition unitGrid :: "nat \<Rightarrow> nat \<Rightarrow> nat \<Rightarrow> real Vec3 \<Rightarrow> real Vec3 UniformGrid" where
  "unitGrid n0 n1 n2 spacing =
     \<lparr> mNumPoints = (n0, n1, n2), mCellSpacing = spacing,
       mContents = replicate (n0 * n1 * n2) (Vec3 0 0 0) \<rparr>"

definition spikeGrid ::
  "nat \<Rightarrow> nat \<Rightarrow> nat \<Rightarrow> real Vec3 \<Rightarrow> nat \<Rightarrow> real Vec3 \<Rightarrow> real Vec3 UniformGrid" where
  "spikeGrid n0 n1 n2 spacing offset v =
     \<lparr> mNumPoints = (n0, n1, n2), mCellSpacing = spacing,
       mContents = (replicate (n0 * n1 * n2) (Vec3 0 0 0))[offset := v] \<rparr>"

text \<open>A scalar grid whose sample at a point is a function of the point's flat offset.\<close>

definition sampledGrid :: "nat \<Rightarrow> nat \<Rightarrow> nat \<Rightarrow> real Vec3 \<Rightarrow> (nat \<Rightarrow> 'a) \<Rightarrow> 'a UniformGrid" where
  "sampledGrid n0 n1 n2 spacing f =
     \<lparr> mNumPoints = (n0, n1, n2), mCellSpacing = spacing,
       mContents = map f [0..<n0 * n1 * n2] \<rparr>"

definition zeroStats :: Stats_Float where
  "zeroStats = \<lparr> mMean = 0, mStdDev = 0, mMin = 0, mMax = 0 \<rparr>"

section \<open>Loops as folds\<close>

lemma forLoop_fold: "forLoop i e st body s = fold body (forIndices i e st) s"
proof (induction i e st body s rule: forLoop.induct)
  case (1 i e st body s)
  have L: "forLoop i e st body s =
      (if i < e \<and> 0 < st then forLoop (i + st) e st body (body i s) else s)"
    by (rule forLoop.simps)
  have I: "forIndices i e st = (if i < e \<and> 0 < st then i # forIndices (i + st) e st else [])"
    by (rule forIndices.simps)
  show ?case
  proof (cases "i < e \<and> 0 < st")
    case True
    with 1 have "forLoop (i + st) e st body (body i s)
        = fold body (forIndices (i + st) e st) (body i s)"
      by blast
    with True L I show ?thesis by simp
  next
    case False
    with L I show ?thesis by auto
  qed
qed

lemma forIndices_Suc0: "forIndices i e (Suc 0) = [i..<e]"
proof (induction n \<equiv> "e - i" arbitrary: i)
  case 0
  then show ?case
    by (subst forIndices.simps) simp
next
  case (Suc n)
  then have lt: "i < e" and n: "n = e - Suc i"
    by simp_all
  have "forIndices (Suc i) e (Suc 0) = [Suc i..<e]"
    using Suc.hyps(1) [OF n] .
  with lt show ?case
    by (subst forIndices.simps) (simp add: upt_conv_Cons)
qed

lemma forIndices_unit: "forIndices i e 1 = [i..<e]"
  using forIndices_Suc0 by simp

lemma fold_const_funpow: "fold (\<lambda>iter. f) (xs :: nat list) s = (f ^^ length xs) s"
  by (induction xs arbitrary: s) (simp_all add: funpow_swap1)

lemma forLoop_unit_funpow: "forLoop 0 n 1 (\<lambda>iter. f) s = (f ^^ n) s"
  by (simp only: forLoop_fold forIndices_unit fold_const_funpow length_upt diff_zero)

lemma fold_concat_map: "fold (\<lambda>a. fold g (h a)) as s = fold g (concat (map h as)) s"
  by (induction as arbitrary: s) simp_all

lemma fold_nest3:
  "fold (\<lambda>iz. fold (\<lambda>iy. fold (\<lambda>ix. body (ix, iy, iz)) xs) (ys iz)) zs s
     = fold body (nest3 zs ys xs) s"
proof -
  have inner: "fold (\<lambda>ix. body (ix, iy, iz)) xs = fold body (map (\<lambda>ix. (ix, iy, iz)) xs)" for iy iz
    by (simp add: fold_map comp_def)
  have mid: "fold (\<lambda>iy. fold (\<lambda>ix. body (ix, iy, iz)) xs) (ys iz)
      = fold body (concat (map (\<lambda>iy. map (\<lambda>ix. (ix, iy, iz)) xs) (ys iz)))" for iz
    unfolding inner by (rule ext) (rule fold_concat_map)
  show ?thesis
    unfolding nest3_def mid by (rule fold_concat_map)
qed

lemma fold_snoc_trace: "fold (\<lambda>p tr. tr @ [p]) ps tr0 = tr0 @ ps"
  by (induction ps arbitrary: tr0) simp_all

lemma set_nest3:
  "set (nest3 zs ys xs) = {(ix, iy, iz). iz \<in> set zs \<and> iy \<in> set (ys iz) \<and> ix \<in> set xs}"
  by (auto simp: nest3_def)

lemma distinct_concat_map:
  assumes "distinct as" "\<And>a. a \<in> set as \<Longrightarrow> distinct (f a)"
    "\<And>a b. a \<in> set as \<Longrightarrow> b \<in> set as \<Longrightarrow> a \<noteq> b \<Longrightarrow> set (f a) \<inter> set (f b) = {}"
  shows "distinct (concat (map f as))"
  using assms
proof (induction as)
  case Nil
  then show ?case by simp
next
  case (Cons a as)
  have "distinct (concat (map f as))"
    by (rule Cons.IH) (use Cons.prems in auto)
  moreover have "distinct (f a)"
    using Cons.prems(2) by simp
  moreover have "set (f a) \<inter> set (f b) = {}" if "b \<in> set as" for b
    using Cons.prems(1) Cons.prems(3) [of a b] that by auto
  ultimately show ?case
    by auto
qed

lemma distinct_nest3:
  assumes "distinct zs" "\<And>iz. iz \<in> set zs \<Longrightarrow> distinct (ys iz)" "distinct xs"
  shows "distinct (nest3 zs ys xs)"
  unfolding nest3_def
proof (rule distinct_concat_map)
  show "distinct zs" by fact
next
  fix iz assume "iz \<in> set zs"
  show "distinct (concat (map (\<lambda>iy. map (\<lambda>ix. (ix, iy, iz)) xs) (ys iz)))"
  proof (rule distinct_concat_map)
    show "distinct (ys iz)" using assms(2) \<open>iz \<in> set zs\<close> .
  next
    fix iy show "distinct (map (\<lambda>ix. (ix, iy, iz)) xs)"
      using assms(3) by (simp add: distinct_map inj_on_def)
  next
    fix a b :: nat assume "a \<noteq> b"
    then show "set (map (\<lambda>ix. (ix, a, iz)) xs) \<inter> set (map (\<lambda>ix. (ix, b, iz)) xs) = {}"
      by auto
  qed
next
  fix a b :: nat assume "a \<noteq> b"
  then show "set (concat (map (\<lambda>iy. map (\<lambda>ix. (ix, iy, a)) xs) (ys a)))
      \<inter> set (concat (map (\<lambda>iy. map (\<lambda>ix. (ix, iy, b)) xs) (ys b))) = {}"
    by auto
qed

lemma forIndices_mem:
  "k \<in> set (forIndices i e st) \<longleftrightarrow> 0 < st \<and> i \<le> k \<and> k < e \<and> (k - i) mod st = 0"
proof (induction i e st rule: forIndices.induct)
  case (1 i e st)
  have I: "forIndices i e st = (if i < e \<and> 0 < st then i # forIndices (i + st) e st else [])"
    by (rule forIndices.simps)
  show ?case
  proof (cases "i < e \<and> 0 < st")
    case True
    have IH: "k \<in> set (forIndices (i + st) e st)
        \<longleftrightarrow> 0 < st \<and> i + st \<le> k \<and> k < e \<and> (k - (i + st)) mod st = 0"
      using "1.IH" [OF True] .
    have step: "(k - i) mod st = 0 \<longleftrightarrow> k = i \<or> (i + st \<le> k \<and> (k - (i + st)) mod st = 0)"
      if "i \<le> k"
    proof (cases "k = i")
      case True
      then show ?thesis by simp
    next
      case False
      with that have gt: "i < k" by simp
      show ?thesis
      proof (cases "i + st \<le> k")
        case True
        then have "k - i = (k - (i + st)) + st" by simp
        then have "(k - i) mod st = (k - (i + st)) mod st"
          by (metis mod_add_self2)
        with True False show ?thesis by simp
      next
        case False
        with gt have "0 < k - i" "k - i < st" by simp_all
        then have "(k - i) mod st \<noteq> 0" by simp
        with False \<open>k \<noteq> i\<close> show ?thesis by simp
      qed
    qed
    from True I have "k \<in> set (forIndices i e st) \<longleftrightarrow> k = i \<or> k \<in> set (forIndices (i + st) e st)"
      by simp
    with IH True step show ?thesis
      by (cases "i \<le> k") auto
  next
    case False
    with I show ?thesis by auto
  qed
qed

lemma forIndices_distinct: "distinct (forIndices i e st)"
proof (induction i e st rule: forIndices.induct)
  case (1 i e st)
  have I: "forIndices i e st = (if i < e \<and> 0 < st then i # forIndices (i + st) e st else [])"
    by (rule forIndices.simps)
  show ?case
  proof (cases "i < e \<and> 0 < st")
    case True
    have "distinct (forIndices (i + st) e st)"
      using "1.IH" [OF True] .
    moreover have "i \<notin> set (forIndices (i + st) e st)"
      using True by (simp add: forIndices_mem)
    ultimately show ?thesis using True I by simp
  next
    case False
    with I show ?thesis by simp
  qed
qed

lemma offset_inj:
  assumes "ix < d0" "ix' < d0" "iy < d1" "iy' < d1"
    and eq: "ix + (d0 * iy + (d0 * d1) * iz) = ix' + (d0 * iy' + (d0 * d1) * iz')"
  shows "ix = ix' \<and> iy = iy' \<and> iz = (iz' :: nat)"
proof -
  have a: "ix + d0 * (iy + d1 * iz) = ix' + d0 * (iy' + d1 * iz')"
    using eq by (simp add: algebra_simps)
  have "(ix + d0 * (iy + d1 * iz)) mod d0 = ix" "(ix' + d0 * (iy' + d1 * iz')) mod d0 = ix'"
    using assms by simp_all
  with a have x: "ix = ix'" by metis
  have "(ix + d0 * (iy + d1 * iz)) div d0 = iy + d1 * iz"
    "(ix' + d0 * (iy' + d1 * iz')) div d0 = iy' + d1 * iz'"
    using assms by simp_all
  with a have b: "iy + d1 * iz = iy' + d1 * iz'" by metis
  have "(iy + d1 * iz) mod d1 = iy" "(iy' + d1 * iz') mod d1 = iy'"
    using assms by simp_all
  with b have y: "iy = iy'" by metis
  have "(iy + d1 * iz) div d1 = iz" "(iy' + d1 * iz') div d1 = iz'"
    using assms by simp_all
  with b have "iz = iz'" by metis
  with x y show ?thesis by simp
qed

section \<open>The loop nests of the relaxation step\<close>

lemma interiorLoop_nest:
  "interiorLoop d0 d1 d2 izStart izEnd redOrBlack body s =
     fold body (nest3 [max 1 izStart..<min (d2 - 1) izEnd]
                  (\<lambda>iz. forIndices (1 + idxYShift iz redOrBlack) (d1 - 1) (iyStep redOrBlack))
                  [1..<d0 - 1]) s"
  unfolding interiorLoop_def forLoop_fold forIndices_unit by (rule fold_nest3)

lemma interiorVisits_nest:
  "interiorVisits d0 d1 d2 izStart izEnd redOrBlack =
     nest3 [max 1 izStart..<min (d2 - 1) izEnd]
       (\<lambda>iz. forIndices (1 + idxYShift iz redOrBlack) (d1 - 1) (iyStep redOrBlack))
       [1..<d0 - 1]"
  unfolding interiorVisits_def interiorLoop_nest fold_snoc_trace by simp

lemma interiorLoop_fold:
  "interiorLoop d0 d1 d2 izStart izEnd redOrBlack body s =
     fold body (interiorVisits d0 d1 d2 izStart izEnd redOrBlack) s"
  unfolding interiorVisits_nest by (rule interiorLoop_nest)

lemma fold_nest3_fixed_x:
  "fold (\<lambda>iz. fold (\<lambda>iy. body (c, iy, iz)) (ys iz)) zs s = fold body (nest3 zs ys [c]) s"
  using fold_nest3 [of body "[c]" ys zs s] by simp

lemma fold_nest3_fixed_y:
  "fold (\<lambda>iz. fold (\<lambda>ix. body (ix, c, iz)) xs) zs s = fold body (nest3 zs (\<lambda>iz. [c]) xs) s"
  using fold_nest3 [of body xs "\<lambda>iz. [c]" zs s] by simp

lemma fold_nest3_fixed_z:
  "fold (\<lambda>iy. fold (\<lambda>ix. body (ix, iy, c)) xs) ys s = fold body (nest3 [c] (\<lambda>iz. ys) xs) s"
  using fold_nest3 [of body xs "\<lambda>iz. ys" "[c]" s] by simp

lemma boundaryMinusX_nest:
  "boundaryMinusX d0 d1 d2 izStart izEnd redOrBlack body s =
     fold body (nest3 [izStart..<izEnd]
       (\<lambda>iz. forIndices (idxYShift iz redOrBlack) d1 (iyStep redOrBlack)) [0]) s"
  unfolding boundaryMinusX_def forLoop_fold forIndices_unit by (rule fold_nest3_fixed_x)

lemma boundaryMinusY_nest:
  "boundaryMinusY d0 d1 d2 izStart izEnd redOrBlack body s =
     fold body (nest3 [izStart..<izEnd] (\<lambda>iz. [0]) [0..<d0]) s"
  unfolding boundaryMinusY_def forLoop_fold forIndices_unit by (rule fold_nest3_fixed_y)

lemma boundaryMinusZ_nest:
  "boundaryMinusZ d0 d1 d2 izStart izEnd redOrBlack body s =
     fold body (if 0 = izStart
       then nest3 [0] (\<lambda>iz. forIndices (idxYShift 0 redOrBlack) d1 (iyStep redOrBlack)) [0..<d0]
       else []) s"
  unfolding boundaryMinusZ_def forLoop_fold forIndices_unit
  using fold_nest3_fixed_z [of body 0 "[0..<d0]"] by simp

lemma boundaryPlusX_nest:
  "boundaryPlusX d0 d1 d2 izStart izEnd redOrBlack body s =
     fold body (nest3 [izStart..<izEnd] (\<lambda>iz. forIndices 0 d1 (iyStep redOrBlack)) [d0 - 1]) s"
  unfolding boundaryPlusX_def forLoop_fold forIndices_unit by (rule fold_nest3_fixed_x)

lemma boundaryPlusY_nest:
  "boundaryPlusY d0 d1 d2 izStart izEnd redOrBlack body s =
     fold body (nest3 [izStart..<izEnd] (\<lambda>iz. [d1 - 1]) [0..<d0]) s"
  unfolding boundaryPlusY_def forLoop_fold forIndices_unit by (rule fold_nest3_fixed_y)

lemma boundaryPlusZ_nest:
  "boundaryPlusZ d0 d1 d2 izStart izEnd redOrBlack body s =
     fold body (if izEnd = d2
       then nest3 [d2 - 1]
              (\<lambda>iz. forIndices (idxYShift (d2 - 1) redOrBlack) d1 (iyStep redOrBlack)) [0..<d0]
       else []) s"
  unfolding boundaryPlusZ_def forLoop_fold forIndices_unit
  using fold_nest3_fixed_z [of body "d2 - 1" "[0..<d0]"] by simp

lemma boundaryLoops_nest:
  "boundaryLoops d0 d1 d2 izStart izEnd redOrBlack body s =
     fold body (faceLists d0 d1 d2 izStart izEnd redOrBlack) s"
  unfolding boundaryLoops_def boundaryMinusX_nest boundaryMinusY_nest boundaryMinusZ_nest
    boundaryPlusX_nest boundaryPlusY_nest boundaryPlusZ_nest faceLists_def
  by (simp only: fold_append comp_def)

lemma boundaryVisits_nest:
  "boundaryVisits d0 d1 d2 izStart izEnd redOrBlack = faceLists d0 d1 d2 izStart izEnd redOrBlack"
  unfolding boundaryVisits_def boundaryLoops_nest fold_snoc_trace by simp

lemma boundaryLoops_fold:
  "boundaryLoops d0 d1 d2 izStart izEnd redOrBlack body s =
     fold body (boundaryVisits d0 d1 d2 izStart izEnd redOrBlack) s"
  unfolding boundaryVisits_nest by (rule boundaryLoops_nest)

lemma fst_fold_relaxPoint:
  "fst (fold (relaxPoint spacing d0 numXY lap) ps (soln, stats, n))
     = fold (relaxWrite spacing d0 numXY lap) ps soln"
  by (induction ps arbitrary: soln stats n) (simp_all add: relaxPoint_def relaxWrite_def Let_def)

lemma Step_contents:
  "mContents (fst (StepTowardVectorPoissonSolution fsqrtf soln lap izStart izEnd redOrBlack bc)) =
    (let d0 = GetNumPoints lap 0; d1 = GetNumPoints lap 1; d2 = GetNumPoints lap 2;
         interior = fold (relaxWrite (GetCellSpacing lap) d0 (d0 * d1) (mContents lap))
                      (interiorVisits d0 d1 d2 izStart izEnd redOrBlack) (mContents soln)
     in if BC_NEUMANN = bc
        then fold (ASSIGN_VALUES_ON_BOUNDARY_POINTS d0 d1 d2)
               (boundaryVisits d0 d1 d2 izStart izEnd redOrBlack) interior
        else interior)"
  by (simp add: StepTowardVectorPoissonSolution_def Let_def interiorLoop_fold boundaryLoops_fold
      fst_fold_relaxPoint)

lemma interiorVisits_mem:
  "(ix, iy, iz) \<in> set (interiorVisits d0 d1 d2 izStart izEnd redOrBlack) \<longleftrightarrow>
     0 < ix \<and> ix < d0 - 1 \<and> 0 < iy \<and> iy < d1 - 1 \<and> 0 < iz \<and> iz < d2 - 1
       \<and> izStart \<le> iz \<and> iz < izEnd
       \<and> (redOrBlack = GS_BOTH \<or> (iy + iz) mod 2 = portionValue redOrBlack)"
proof -
  have y: "iy \<in> set (forIndices (1 + idxYShift iz redOrBlack) (d1 - 1) (iyStep redOrBlack))
      \<longleftrightarrow> 0 < iy \<and> iy < d1 - 1
            \<and> (redOrBlack = GS_BOTH \<or> (iy + iz) mod 2 = portionValue redOrBlack)"
    unfolding forIndices_mem idxYShift_def iyStep_def
    by (cases redOrBlack) (simp_all, presburger+)
  show ?thesis
    unfolding interiorVisits_nest set_nest3 using y by auto
qed

lemma interiorVisits_distinct: "distinct (interiorVisits d0 d1 d2 izStart izEnd redOrBlack)"
  unfolding interiorVisits_nest by (rule distinct_nest3) (simp_all add: forIndices_distinct)

section \<open>Grids of full size\<close>

text \<open>
  The routines assert \<^verbatim>\<open>ShapeMatches\<close> of their two grids and
  \<^verbatim>\<open>Size() == GetGridCapacity()\<close> of the grid they write; together these give the length
  of the array written.
\<close>

lemma full_size:
  assumes "ShapeMatches g h" "Size g = GetGridCapacity g" "mNumPoints h = (d0, d1, d2)"
  shows "length (mContents g) = d0 * d1 * d2"
  using assms by (simp add: ShapeMatches_def Size_def GetGridCapacity_def GetNumPoints_def)

section \<open>Frames of the relaxation step\<close>

lemma offset_neq:
  assumes "ix < d0" "jx < d0" "iy < d1" "jy < d1" "(ix, iy, iz) \<noteq> (jx, jy, jz)"
  shows "offsetX0Y0Z0 d0 (d0 * d1) (ix, iy, iz) \<noteq> offsetX0Y0Z0 d0 (d0 * d1) (jx, jy, jz)"
  using assms offset_inj [of ix d0 jx iy d1 jy iz jz] by (auto simp: offsetX0Y0Z0_def)

lemma fold_frame:
  assumes "\<And>p s. p \<in> set ps \<Longrightarrow> w p s ! j = s ! j"
  shows "fold w ps s ! j = s ! j"
  using assms by (induction ps arbitrary: s) simp_all

lemma fold_length:
  assumes "\<And>p s. p \<in> set ps \<Longrightarrow> length (w p s) = length s"
  shows "length (fold w ps s) = length s"
  using assms by (induction ps arbitrary: s) simp_all

lemma relaxWrite_other:
  "offsetX0Y0Z0 d0 numXY p \<noteq> j \<Longrightarrow> relaxWrite spacing d0 numXY lap p s ! j = s ! j"
  by (simp add: relaxWrite_def)

lemma ASSIGN_other:
  "offsetX0Y0Z0 d0 (d0 * d1) p \<noteq> j \<Longrightarrow> ASSIGN_VALUES_ON_BOUNDARY_POINTS d0 d1 d2 p s ! j = s ! j"
  by (cases p) (simp add: ASSIGN_VALUES_ON_BOUNDARY_POINTS_def Let_def)

lemma boundaryVisits_on_face:
  assumes "(ix, iy, iz) \<in> set (boundaryVisits d0 d1 d2 izStart izEnd redOrBlack)"
    and "0 < d0" "0 < d1"
  shows "ix < d0 \<and> iy < d1
    \<and> (ix = 0 \<or> ix = d0 - 1 \<or> iy = 0 \<or> iy = d1 - 1 \<or> iz = 0 \<or> iz = d2 - 1)"
  using assms unfolding boundaryVisits_nest faceLists_def
  by (auto simp: set_nest3 forIndices_mem split: if_splits)

text \<open>A sample that is not at a visited interior point survives the interior loop.\<close>

lemma interior_frame:
  assumes "\<And>p. p \<in> set (interiorVisits d0 d1 d2 izStart izEnd redOrBlack)
             \<Longrightarrow> offsetX0Y0Z0 d0 numXY p \<noteq> j"
  shows "fold (relaxWrite spacing d0 numXY lap)
           (interiorVisits d0 d1 d2 izStart izEnd redOrBlack) s ! j = s ! j"
  by (rule fold_frame) (simp add: relaxWrite_other assms)

lemma boundary_frame:
  assumes "\<And>p. p \<in> set (boundaryVisits d0 d1 d2 izStart izEnd redOrBlack)
             \<Longrightarrow> offsetX0Y0Z0 d0 (d0 * d1) p \<noteq> j"
  shows "fold (ASSIGN_VALUES_ON_BOUNDARY_POINTS d0 d1 d2)
           (boundaryVisits d0 d1 d2 izStart izEnd redOrBlack) s ! j = s ! j"
  by (rule fold_frame) (simp add: ASSIGN_other assms)

lemma Step_frame:
  assumes dims: "mNumPoints lap = (d0, d1, d2)"
    and int: "\<And>p. p \<in> set (interiorVisits d0 d1 d2 izStart izEnd redOrBlack)
             \<Longrightarrow> offsetX0Y0Z0 d0 (d0 * d1) p \<noteq> j"
    and bnd: "bc = BC_NEUMANN \<Longrightarrow> (\<And>p. p \<in> set (boundaryVisits d0 d1 d2 izStart izEnd redOrBlack)
             \<Longrightarrow> offsetX0Y0Z0 d0 (d0 * d1) p \<noteq> j)"
  shows "mContents (fst (StepTowardVectorPoissonSolution fsqrtf soln lap izStart izEnd redOrBlack bc)) ! j
           = mContents soln ! j"
proof -
  have g: "GetNumPoints lap 0 = d0" "GetNumPoints lap (Suc 0) = d1" "GetNumPoints lap 2 = d2"
    using dims by (simp_all add: GetNumPoints_def)
  show ?thesis
  proof (cases "bc = BC_NEUMANN")
    case True
    then show ?thesis
      using bnd int by (simp add: Step_contents g Let_def boundary_frame interior_frame)
  next
    case False
    then have "BC_NEUMANN \<noteq> bc" by auto
    then show ?thesis
      using int by (simp add: Step_contents g Let_def interior_frame)
  qed
qed

text \<open>Under Dirichlet, a pass changes nothing at a boundary point.\<close>

lemma Step_Dirichlet_boundary:
  assumes dims: "mNumPoints lap = (d0, d1, d2)"
    and bound: "ix < d0" "iy < d1"
    and face: "ix = 0 \<or> ix = d0 - 1 \<or> iy = 0 \<or> iy = d1 - 1 \<or> iz = 0 \<or> iz = d2 - 1"
  shows "mContents (fst (StepTowardVectorPoissonSolution fsqrtf soln lap izStart izEnd redOrBlack
            BC_DIRICHLET)) ! offsetX0Y0Z0 d0 (d0 * d1) (ix, iy, iz)
           = mContents soln ! offsetX0Y0Z0 d0 (d0 * d1) (ix, iy, iz)"
proof (rule Step_frame [OF dims])
  fix p assume p: "p \<in> set (interiorVisits d0 d1 d2 izStart izEnd redOrBlack)"
  obtain jx jy jz where q: "p = (jx, jy, jz)" by (cases p) auto
  from p have "0 < jx \<and> jx < d0 - 1 \<and> 0 < jy \<and> jy < d1 - 1 \<and> 0 < jz \<and> jz < d2 - 1"
    unfolding q interiorVisits_mem by simp
  with face have "(jx, jy, jz) \<noteq> (ix, iy, iz)" "jx < d0" "jy < d1" by auto
  then show "offsetX0Y0Z0 d0 (d0 * d1) p \<noteq> offsetX0Y0Z0 d0 (d0 * d1) (ix, iy, iz)"
    unfolding q using bound by (intro offset_neq) auto
qed simp

lemma solveIteration_Dirichlet_boundary:
  assumes dims: "mNumPoints lap = (d0, d1, d2)"
    and bound: "ix < d0" "iy < d1"
    and face: "ix = 0 \<or> ix = d0 - 1 \<or> iy = 0 \<or> iy = d1 - 1 \<or> iz = 0 \<or> iz = d2 - 1"
  shows "mContents (fst ((solveIteration fsqrtf lap BC_DIRICHLET ^^ n) st))
            ! offsetX0Y0Z0 d0 (d0 * d1) (ix, iy, iz)
           = mContents (fst st) ! offsetX0Y0Z0 d0 (d0 * d1) (ix, iy, iz)"
proof (induction n)
  case 0
  show ?case by simp
next
  case (Suc n)
  have one: "mContents (fst (solveIteration fsqrtf lap BC_DIRICHLET t))
            ! offsetX0Y0Z0 d0 (d0 * d1) (ix, iy, iz)
           = mContents (fst t) ! offsetX0Y0Z0 d0 (d0 * d1) (ix, iy, iz)" for t
    by (simp add: solveIteration_def Let_def Step_Dirichlet_boundary [OF dims bound face])
  show ?case
    using one Suc by simp
qed

lemma Step_interior_frame:
  assumes dims: "mNumPoints lap = (d0, d1, d2)"
    and int: "0 < ix" "ix < d0 - 1" "0 < iy" "iy < d1 - 1" "0 < iz" "iz < d2 - 1"
    and unvisited: "(ix, iy, iz) \<notin> set (interiorVisits d0 d1 d2 izStart izEnd redOrBlack)"
  shows "mContents (fst (StepTowardVectorPoissonSolution fsqrtf soln lap izStart izEnd redOrBlack bc))
            ! offsetX0Y0Z0 d0 (d0 * d1) (ix, iy, iz)
           = mContents soln ! offsetX0Y0Z0 d0 (d0 * d1) (ix, iy, iz)"
proof (rule Step_frame [OF dims])
  fix p assume p: "p \<in> set (interiorVisits d0 d1 d2 izStart izEnd redOrBlack)"
  obtain jx jy jz where q: "p = (jx, jy, jz)" by (cases p) auto
  from p have "jx < d0 - 1 \<and> jy < d1 - 1"
    unfolding q interiorVisits_mem by simp
  moreover from p unvisited have "(jx, jy, jz) \<noteq> (ix, iy, iz)"
    unfolding q by auto
  ultimately show "offsetX0Y0Z0 d0 (d0 * d1) p \<noteq> offsetX0Y0Z0 d0 (d0 * d1) (ix, iy, iz)"
    unfolding q using int by (intro offset_neq) auto
next
  fix p assume p: "p \<in> set (boundaryVisits d0 d1 d2 izStart izEnd redOrBlack)"
  obtain jx jy jz where q: "p = (jx, jy, jz)" by (cases p) auto
  from int have pos: "0 < d0" "0 < d1" by auto
  from boundaryVisits_on_face [OF p [unfolded q] pos] int
  have "jx < d0" "jy < d1" "(jx, jy, jz) \<noteq> (ix, iy, iz)" by auto
  then show "offsetX0Y0Z0 d0 (d0 * d1) p \<noteq> offsetX0Y0Z0 d0 (d0 * d1) (ix, iy, iz)"
    unfolding q using int by (intro offset_neq) auto
qed

section \<open>The iteration budget\<close>

lemma SolveVectorPoisson_funpow:
  "SolveVectorPoisson fsqrtf soln lap numSteps boundaryCondition residualStats =
     ((solveIteration fsqrtf lap boundaryCondition) ^^
        (if numSteps > 0 then numSteps
         else 2 * MAX3 (GetNumPoints soln 0) (GetNumPoints soln 1) (GetNumPoints soln 2)))
       (soln, residualStats)"
  unfolding SolveVectorPoisson_def Let_def
  by (simp only: forLoop_unit_funpow)

text \<open>
  C4. \<^verbatim>\<open>SolveVectorPoisson\<close> runs the loop body (a red pass followed by a black pass,
  each over all of z) exactly \<open>numSteps\<close> times when \<open>numSteps\<close> is positive and exactly
  twice the largest grid dimension otherwise. The count depends on nothing else, in particular not on the
  residual statistics, and the first pass receives the caller's solution grid as it
  was passed in: nothing writes it before.
\<close>

theorem SolveVectorPoisson_rounds:
  "SolveVectorPoisson fsqrtf soln lap numSteps boundaryCondition residualStats =
     ((\<lambda>st. StepTowardVectorPoissonSolution fsqrtf
              (fst (StepTowardVectorPoissonSolution fsqrtf (fst st) lap
                      0 (GetNumPoints (fst st) 2) GS_RED boundaryCondition))
              lap 0 (GetNumPoints (fst st) 2) GS_BLACK boundaryCondition) ^^
        (if numSteps > 0 then numSteps
         else 2 * max (max (GetNumPoints soln 0) (GetNumPoints soln 1)) (GetNumPoints soln 2)))
       (soln, residualStats)"
proof -
  have "solveIteration fsqrtf lap boundaryCondition =
      (\<lambda>st. StepTowardVectorPoissonSolution fsqrtf
              (fst (StepTowardVectorPoissonSolution fsqrtf (fst st) lap
                      0 (GetNumPoints (fst st) 2) GS_RED boundaryCondition))
              lap 0 (GetNumPoints (fst st) 2) GS_BLACK boundaryCondition)"
    by (rule ext) (simp add: solveIteration_def Let_def)
  then show ?thesis
    unfolding SolveVectorPoisson_funpow MAX3_def by simp
qed

section \<open>Boundary samples under Dirichlet\<close>

text \<open>
  C8. Under the Dirichlet mode neither one pass (any colour, any z-range) nor the whole
  solver loop changes a sample on one of the six faces of the solution grid: it holds
  what the caller stored there.
\<close>

theorem Dirichlet_boundary_untouched:
  assumes "ShapeMatches soln lap"
    and "mNumPoints soln = (d0, d1, d2)"
    and "ix < d0" "iy < d1" "iz < d2"
    and "ix = 0 \<or> ix = d0 - 1 \<or> iy = 0 \<or> iy = d1 - 1 \<or> iz = 0 \<or> iz = d2 - 1"
  shows "mContents (fst (StepTowardVectorPoissonSolution fsqrtf soln lap izStart izEnd redOrBlack
            BC_DIRICHLET)) ! (ix + d0 * iy + d0 * d1 * iz)
           = mContents soln ! (ix + d0 * iy + d0 * d1 * iz)
       \<and> mContents (fst (SolveVectorPoisson fsqrtf soln lap numSteps BC_DIRICHLET residualStats))
            ! (ix + d0 * iy + d0 * d1 * iz)
           = mContents soln ! (ix + d0 * iy + d0 * d1 * iz)"
proof -
  have dims: "mNumPoints lap = (d0, d1, d2)"
    using assms(1,2) by (simp add: ShapeMatches_def)
  have off: "ix + d0 * iy + d0 * d1 * iz = offsetX0Y0Z0 d0 (d0 * d1) (ix, iy, iz)"
    by (simp add: offsetX0Y0Z0_def)
  show ?thesis
    unfolding off SolveVectorPoisson_funpow
    using Step_Dirichlet_boundary [OF dims assms(3,4,6)]
      solveIteration_Dirichlet_boundary [OF dims assms(3,4,6)]
    by simp
qed


theorem Dirichlet_boundary_untouched_witness:
  "ShapeMatches (spikeGrid 3 3 3 (Vec3 1 1 1) 14 (Vec3 1 0 0)) (unitGrid 3 3 3 (Vec3 1 1 1))
   \<and> mContents (fst (StepTowardVectorPoissonSolution sqrt
         (spikeGrid 3 3 3 (Vec3 1 1 1) 14 (Vec3 1 0 0)) (unitGrid 3 3 3 (Vec3 1 1 1))
         0 3 GS_RED BC_DIRICHLET)) ! 14 = Vec3 1 0 0
   \<and> mContents (fst (SolveVectorPoisson sqrt
         (spikeGrid 3 3 3 (Vec3 1 1 1) 14 (Vec3 1 0 0)) (unitGrid 3 3 3 (Vec3 1 1 1))
         5 BC_DIRICHLET zeroStats)) ! 14 = Vec3 1 0 0"
  using Dirichlet_boundary_untouched [of "spikeGrid 3 3 3 (Vec3 1 1 1) 14 (Vec3 1 0 0)"
      "unitGrid 3 3 3 (Vec3 1 1 1)" 3 3 3 2 1 1 sqrt 0 3 GS_RED 5 zeroStats]
  by (simp add: ShapeMatches_def spikeGrid_def unitGrid_def)

section \<open>Red and black\<close>

text \<open>
  C3. The interior sweep of a pass writes the solution array once per visit of its
  loop nest, at the visited point. A red pass visits, once each, exactly the interior
  points of its z-range whose \<open>(iy + iz) mod 2\<close> is 0, and a black pass those whose
  parity is 1; together the two visit every interior point of the range exactly once
  (the list of visits has no repetition). A red pass leaves every interior sample of
  parity 1 as it was and a black pass every interior sample of parity 0, under either
  boundary condition.
\<close>

theorem red_black_partition:
  assumes dims: "mNumPoints lap = (d0, d1, d2)" "0 < d0" "0 < d1" "0 < d2"
  shows
    "(\<forall>redOrBlack.
        mContents (fst (StepTowardVectorPoissonSolution fsqrtf soln lap izStart izEnd redOrBlack
                          BC_DIRICHLET))
          = fold (relaxWrite (GetCellSpacing lap) d0 (d0 * d1) (mContents lap))
              (interiorVisits d0 d1 d2 izStart izEnd redOrBlack) (mContents soln))
     \<and> set (interiorVisits d0 d1 d2 izStart izEnd GS_RED) =
        {(ix, iy, iz). 0 < ix \<and> ix < d0 - 1 \<and> 0 < iy \<and> iy < d1 - 1 \<and> 0 < iz \<and> iz < d2 - 1
           \<and> izStart \<le> iz \<and> iz < izEnd \<and> (iy + iz) mod 2 = 0}
     \<and> set (interiorVisits d0 d1 d2 izStart izEnd GS_BLACK) =
        {(ix, iy, iz). 0 < ix \<and> ix < d0 - 1 \<and> 0 < iy \<and> iy < d1 - 1 \<and> 0 < iz \<and> iz < d2 - 1
           \<and> izStart \<le> iz \<and> iz < izEnd \<and> (iy + iz) mod 2 = 1}
     \<and> distinct (interiorVisits d0 d1 d2 izStart izEnd GS_RED
                  @ interiorVisits d0 d1 d2 izStart izEnd GS_BLACK)
     \<and> set (interiorVisits d0 d1 d2 izStart izEnd GS_RED
             @ interiorVisits d0 d1 d2 izStart izEnd GS_BLACK) =
        {(ix, iy, iz). 0 < ix \<and> ix < d0 - 1 \<and> 0 < iy \<and> iy < d1 - 1 \<and> 0 < iz \<and> iz < d2 - 1
           \<and> izStart \<le> iz \<and> iz < izEnd}
     \<and> (\<forall>ix iy iz. 0 < ix \<and> ix < d0 - 1 \<and> 0 < iy \<and> iy < d1 - 1 \<and> 0 < iz \<and> iz < d2 - 1
            \<and> (iy + iz) mod 2 = 1 \<longrightarrow>
          mContents (fst (StepTowardVectorPoissonSolution fsqrtf soln lap izStart izEnd GS_RED bc))
              ! (ix + d0 * iy + d0 * d1 * iz)
            = mContents soln ! (ix + d0 * iy + d0 * d1 * iz))
     \<and> (\<forall>ix iy iz. 0 < ix \<and> ix < d0 - 1 \<and> 0 < iy \<and> iy < d1 - 1 \<and> 0 < iz \<and> iz < d2 - 1
            \<and> (iy + iz) mod 2 = 0 \<longrightarrow>
          mContents (fst (StepTowardVectorPoissonSolution fsqrtf soln lap izStart izEnd GS_BLACK bc))
              ! (ix + d0 * iy + d0 * d1 * iz)
            = mContents soln ! (ix + d0 * iy + d0 * d1 * iz))"
proof -
  have red: "set (interiorVisits d0 d1 d2 izStart izEnd GS_RED) =
        {(ix, iy, iz). 0 < ix \<and> ix < d0 - 1 \<and> 0 < iy \<and> iy < d1 - 1 \<and> 0 < iz \<and> iz < d2 - 1
           \<and> izStart \<le> iz \<and> iz < izEnd \<and> (iy + iz) mod 2 = 0}"
    by (auto simp: interiorVisits_mem)
  have black: "set (interiorVisits d0 d1 d2 izStart izEnd GS_BLACK) =
        {(ix, iy, iz). 0 < ix \<and> ix < d0 - 1 \<and> 0 < iy \<and> iy < d1 - 1 \<and> 0 < iz \<and> iz < d2 - 1
           \<and> izStart \<le> iz \<and> iz < izEnd \<and> (iy + iz) mod 2 = 1}"
    by (auto simp: interiorVisits_mem)
  have disj: "set (interiorVisits d0 d1 d2 izStart izEnd GS_RED)
      \<inter> set (interiorVisits d0 d1 d2 izStart izEnd GS_BLACK) = {}"
    unfolding red black by auto
  have once: "distinct (interiorVisits d0 d1 d2 izStart izEnd GS_RED
                  @ interiorVisits d0 d1 d2 izStart izEnd GS_BLACK)"
    using disj by (simp add: interiorVisits_distinct)
  have all: "set (interiorVisits d0 d1 d2 izStart izEnd GS_RED
             @ interiorVisits d0 d1 d2 izStart izEnd GS_BLACK) =
        {(ix, iy, iz). 0 < ix \<and> ix < d0 - 1 \<and> 0 < iy \<and> iy < d1 - 1 \<and> 0 < iz \<and> iz < d2 - 1
           \<and> izStart \<le> iz \<and> iz < izEnd}"
    unfolding set_append red black by auto
  have off: "ix + d0 * iy + d0 * d1 * iz = offsetX0Y0Z0 d0 (d0 * d1) (ix, iy, iz)" for ix iy iz
    by (simp add: offsetX0Y0Z0_def)
  have fr: "mContents (fst (StepTowardVectorPoissonSolution fsqrtf soln lap izStart izEnd GS_RED bc))
              ! (ix + d0 * iy + d0 * d1 * iz)
            = mContents soln ! (ix + d0 * iy + d0 * d1 * iz)"
    if "0 < ix \<and> ix < d0 - 1 \<and> 0 < iy \<and> iy < d1 - 1 \<and> 0 < iz \<and> iz < d2 - 1
            \<and> (iy + iz) mod 2 = 1" for ix iy iz
    unfolding off using that by (intro Step_interior_frame [OF dims(1)]) (simp_all add: red)
  have fb: "mContents (fst (StepTowardVectorPoissonSolution fsqrtf soln lap izStart izEnd GS_BLACK bc))
              ! (ix + d0 * iy + d0 * d1 * iz)
            = mContents soln ! (ix + d0 * iy + d0 * d1 * iz)"
    if "0 < ix \<and> ix < d0 - 1 \<and> 0 < iy \<and> iy < d1 - 1 \<and> 0 < iz \<and> iz < d2 - 1
            \<and> (iy + iz) mod 2 = 0" for ix iy iz
    unfolding off using that by (intro Step_interior_frame [OF dims(1)]) (simp_all add: black)
  have g: "GetNumPoints lap 0 = d0" "GetNumPoints lap (Suc 0) = d1" "GetNumPoints lap 2 = d2"
    using dims(1) by (simp_all add: GetNumPoints_def)
  have pass: "\<forall>redOrBlack.
        mContents (fst (StepTowardVectorPoissonSolution fsqrtf soln lap izStart izEnd redOrBlack
                          BC_DIRICHLET))
          = fold (relaxWrite (GetCellSpacing lap) d0 (d0 * d1) (mContents lap))
              (interiorVisits d0 d1 d2 izStart izEnd redOrBlack) (mContents soln)"
    by (simp add: Step_contents g Let_def)
  from pass red black once all fr fb show ?thesis
    by blast
qed

theorem red_black_partition_witness:
  "mNumPoints (unitGrid 3 4 3 (Vec3 1 1 1)) = (3, 4, 3)
   \<and> distinct (interiorVisits 3 4 3 0 3 GS_RED @ interiorVisits 3 4 3 0 3 GS_BLACK)
   \<and> mContents (fst (StepTowardVectorPoissonSolution sqrt
         (spikeGrid 3 4 3 (Vec3 1 1 1) 19 (Vec3 1 0 0)) (unitGrid 3 4 3 (Vec3 1 1 1))
         0 3 GS_RED BC_NEUMANN)) ! 19 = Vec3 1 0 0
   \<and> mContents (fst (StepTowardVectorPoissonSolution sqrt
         (spikeGrid 3 4 3 (Vec3 1 1 1) 16 (Vec3 1 0 0)) (unitGrid 3 4 3 (Vec3 1 1 1))
         0 3 GS_BLACK BC_NEUMANN)) ! 16 = Vec3 1 0 0"
proof -
  have d: "mNumPoints (unitGrid 3 4 3 (Vec3 1 1 1)) = (3, 4, 3)"
    by (simp add: unitGrid_def)
  have pos: "0 < (3::nat)" "0 < (4::nat)"
    by simp_all
  note red = red_black_partition [OF d pos(1) pos(2) pos(1),
      where fsqrtf = sqrt and soln = "spikeGrid 3 4 3 (Vec3 1 1 1) 19 (Vec3 1 0 0)"
        and izStart = 0 and izEnd = 3 and bc = BC_NEUMANN]
  note black = red_black_partition [OF d pos(1) pos(2) pos(1),
      where fsqrtf = sqrt and soln = "spikeGrid 3 4 3 (Vec3 1 1 1) 16 (Vec3 1 0 0)"
        and izStart = 0 and izEnd = 3 and bc = BC_NEUMANN]
  have once: "distinct (interiorVisits 3 4 3 0 3 GS_RED @ interiorVisits 3 4 3 0 3 GS_BLACK)"
    using red [THEN conjunct2, THEN conjunct2, THEN conjunct2, THEN conjunct1] .
  have r: "mContents (fst (StepTowardVectorPoissonSolution sqrt
         (spikeGrid 3 4 3 (Vec3 1 1 1) 19 (Vec3 1 0 0)) (unitGrid 3 4 3 (Vec3 1 1 1))
         0 3 GS_RED BC_NEUMANN)) ! 19 = Vec3 1 0 0"
    using red [THEN conjunct2, THEN conjunct2, THEN conjunct2, THEN conjunct2, THEN conjunct2,
        THEN conjunct1, THEN spec, THEN spec, THEN spec, of 1 2 1]
    by (simp add: spikeGrid_def)
  have b: "mContents (fst (StepTowardVectorPoissonSolution sqrt
         (spikeGrid 3 4 3 (Vec3 1 1 1) 16 (Vec3 1 0 0)) (unitGrid 3 4 3 (Vec3 1 1 1))
         0 3 GS_BLACK BC_NEUMANN)) ! 16 = Vec3 1 0 0"
    using black [THEN conjunct2, THEN conjunct2, THEN conjunct2, THEN conjunct2, THEN conjunct2,
        THEN conjunct2, THEN spec, THEN spec, THEN spec, of 1 1 1]
    by (simp add: spikeGrid_def)
  from d once r b show ?thesis
    by (intro conjI)
qed

section \<open>Values written by the relaxation step\<close>

lemma Vec3_simps:
  "Vec3 a b c + Vec3 a' b' c' = Vec3 (a + a') (b + b') (c + (c'::real))"
  "Vec3 a b c - Vec3 a' b' c' = Vec3 (a - a') (b - b') (c - (c'::real))"
  "s *\<^sub>R Vec3 a b c = Vec3 (s * a) (s * b) (s * (c::real))"
  by (simp_all add: plus_Vec3_def minus_Vec3_def scaleR_Vec3_def)

lemma offset_bound:
  assumes "ix < d0" "iy < d1" "iz < d2"
  shows "offsetX0Y0Z0 d0 (d0 * d1) (ix, iy, iz) < d0 * d1 * d2"
proof -
  have "ix + d0 * iy < d0 * Suc iy" using assms(1) by simp
  also have "\<dots> \<le> d0 * d1" using assms(2) by (intro mult_le_mono2) simp
  finally have a: "ix + d0 * iy < d0 * d1" .
  then have "ix + d0 * iy + d0 * d1 * iz < d0 * d1 * Suc iz" by simp
  also have "\<dots> \<le> d0 * d1 * d2" using assms(3) by (intro mult_le_mono2) simp
  finally show ?thesis by (simp add: offsetX0Y0Z0_def add.assoc)
qed

lemma relaxWrite_length: "length (relaxWrite spacing d0 numXY lap p s) = length s"
  by (simp add: relaxWrite_def)

lemma relaxWrite_at:
  "offsetX0Y0Z0 d0 numXY p < length s \<Longrightarrow>
     relaxWrite spacing d0 numXY lap p s ! offsetX0Y0Z0 d0 numXY p
       = updatedVal spacing d0 numXY lap s p"
  by (simp add: relaxWrite_def)

text \<open>
  The sample at a visited interior point, after the whole pass, is the value computed
  at its visit from the array as it was just before; until then it held its old value.
\<close>

lemma Step_written_value:
  assumes dims: "mNumPoints lap = (d0, d1, d2)"
    and size: "length (mContents soln) = d0 * d1 * d2"
    and visit: "interiorVisits d0 d1 d2 izStart izEnd redOrBlack = pre @ p # post"
  shows "mContents (fst (StepTowardVectorPoissonSolution fsqrtf soln lap izStart izEnd redOrBlack bc))
            ! offsetX0Y0Z0 d0 (d0 * d1) p
           = updatedVal (GetCellSpacing lap) d0 (d0 * d1) (mContents lap)
               (fold (relaxWrite (GetCellSpacing lap) d0 (d0 * d1) (mContents lap)) pre
                  (mContents soln)) p"
    and "fold (relaxWrite (GetCellSpacing lap) d0 (d0 * d1) (mContents lap)) pre (mContents soln)
            ! offsetX0Y0Z0 d0 (d0 * d1) p
           = mContents soln ! offsetX0Y0Z0 d0 (d0 * d1) p"
proof -
  let ?w = "relaxWrite (GetCellSpacing lap) d0 (d0 * d1) (mContents lap)"
  let ?V = "interiorVisits d0 d1 d2 izStart izEnd redOrBlack"
  let ?o = "offsetX0Y0Z0 d0 (d0 * d1)"
  obtain ix iy iz where p: "p = (ix, iy, iz)" by (cases p) auto
  have g: "GetNumPoints lap 0 = d0" "GetNumPoints lap (Suc 0) = d1" "GetNumPoints lap 2 = d2"
    using dims by (simp_all add: GetNumPoints_def)
  have "p \<in> set ?V" using visit by simp
  then have int: "0 < ix" "ix < d0 - 1" "0 < iy" "iy < d1 - 1" "0 < iz" "iz < d2 - 1"
    unfolding p interiorVisits_mem by simp_all
  have dist: "distinct (pre @ p # post)"
    using interiorVisits_distinct [of d0 d1 d2 izStart izEnd redOrBlack] visit by simp
  have other: "?o q \<noteq> ?o p" if "q \<in> set pre \<union> set post" for q
  proof -
    obtain jx jy jz where q: "q = (jx, jy, jz)" by (cases q) auto
    from that visit have "q \<in> set ?V" by auto
    then have "jx < d0 - 1 \<and> jy < d1 - 1"
      unfolding q interiorVisits_mem by simp
    moreover from that dist have "q \<noteq> p" by auto
    ultimately show ?thesis
      unfolding p q using int by (intro offset_neq) auto
  qed
  have len: "length (fold ?w pre (mContents soln)) = d0 * d1 * d2"
    using size by (simp add: fold_length relaxWrite_length)
  have inb: "?o p < d0 * d1 * d2"
    unfolding p using int by (intro offset_bound) auto
  have before: "fold ?w pre (mContents soln) ! ?o p = mContents soln ! ?o p"
    by (rule fold_frame) (use other in \<open>simp add: relaxWrite_other\<close>)
  have "fold ?w ?V (mContents soln) ! ?o p
      = fold ?w post (?w p (fold ?w pre (mContents soln))) ! ?o p"
    by (simp add: visit)
  also have "\<dots> = ?w p (fold ?w pre (mContents soln)) ! ?o p"
    by (rule fold_frame) (use other in \<open>simp add: relaxWrite_other\<close>)
  also have "\<dots> = updatedVal (GetCellSpacing lap) d0 (d0 * d1) (mContents lap)
      (fold ?w pre (mContents soln)) p"
    using len inb by (simp add: relaxWrite_at)
  finally have sweep: "fold ?w ?V (mContents soln) ! ?o p
      = updatedVal (GetCellSpacing lap) d0 (d0 * d1) (mContents lap)
          (fold ?w pre (mContents soln)) p" .
  have bnd: "fold (ASSIGN_VALUES_ON_BOUNDARY_POINTS d0 d1 d2)
      (boundaryVisits d0 d1 d2 izStart izEnd redOrBlack) s ! ?o p = s ! ?o p" for s
  proof (rule boundary_frame)
    fix q assume q: "q \<in> set (boundaryVisits d0 d1 d2 izStart izEnd redOrBlack)"
    obtain jx jy jz where qq: "q = (jx, jy, jz)" by (cases q) auto
    from int have pos: "0 < d0" "0 < d1" by auto
    from boundaryVisits_on_face [OF q [unfolded qq] pos] int
    have "jx < d0" "jy < d1" "(jx, jy, jz) \<noteq> (ix, iy, iz)" by auto
    then show "?o q \<noteq> ?o p"
      unfolding p qq using int by (intro offset_neq) auto
  qed
  show "mContents (fst (StepTowardVectorPoissonSolution fsqrtf soln lap izStart izEnd redOrBlack bc))
            ! ?o p
           = updatedVal (GetCellSpacing lap) d0 (d0 * d1) (mContents lap)
               (fold ?w pre (mContents soln)) p"
    by (cases "BC_NEUMANN = bc") (simp_all add: Step_contents g Let_def bnd sweep)
  show "fold ?w pre (mContents soln) ! ?o p = mContents soln ! ?o p"
    by (rule before)
qed

lemma relax_value: "relax = 1.72 \<and> 1 \<le> relax \<and> relax < 2"
  by (simp add: relax_def)

lemma updatedVal_explicit:
  assumes "spacing = Vec3 sx sy sz"
  shows "updatedVal spacing d0 numXY lap s (ix, iy, iz) =
      (1 - 1.72) *\<^sub>R (s ! offsetX0Y0Z0 d0 numXY (ix, iy, iz))
      + 1.72 *\<^sub>R
        ((0.5 / (1 / sx\<^sup>2 + 1 / sy\<^sup>2 + (if sz > FLT_EPSILON then 1 / sz\<^sup>2 else 0))) *\<^sub>R
          ( (1 / sx\<^sup>2) *\<^sub>R (s ! offsetX0Y0Z0 d0 numXY (ix + 1, iy, iz)
                                + s ! offsetX0Y0Z0 d0 numXY (ix - 1, iy, iz))
          + (1 / sy\<^sup>2) *\<^sub>R (s ! offsetX0Y0Z0 d0 numXY (ix, iy + 1, iz)
                                + s ! offsetX0Y0Z0 d0 numXY (ix, iy - 1, iz))
          + (if sz > FLT_EPSILON then 1 / sz\<^sup>2 else 0) *\<^sub>R
                (s ! offsetX0Y0Z0 d0 numXY (ix, iy, iz + 1)
                  + s ! offsetX0Y0Z0 d0 numXY (ix, iy, iz - 1))
          - lap ! offsetX0Y0Z0 d0 numXY (ix, iy, iz) ))"
  unfolding updatedVal_def vSolution_def HalfSpacing2Sum_def reciprocalSpacing2_def
    reciprocalSpacing_def POW2_def oneMinusRelax_def relax_def assms
    offsetX0Y0Z0_def offsetXMY0Z0_def offsetXPY0Z0_def offsetX0YMZ0_def offsetX0YPZ0_def
    offsetX0Y0ZM_def offsetX0Y0ZP_def
  by (simp add: power2_eq_square)

section \<open>The interior update rule\<close>

text \<open>
  With a z spacing of \<open>2\<^sup>-\<^sup>2\<^sup>3\<close> (which is \<^verbatim>\<open>FLT_EPSILON\<close>) the step uses 0 for the
  reciprocal z spacing, so the value it writes is not the one the rule gives with
  \<open>1 / spacing.z\<^sup>2\<close>: on a \<open>3 \<times> 3 \<times> 3\<close> grid that is zero but for the sample right of the
  centre, the centre becomes \<open>0.43\<close> and not \<open>1.72 * 0.5 / (2 + 2\<^sup>4\<^sup>6)\<close>.
\<close>

theorem update_rule_degenerate_z_counterexample:
  "mContents (fst (StepTowardVectorPoissonSolution sqrt
       (spikeGrid 3 3 3 (Vec3 1 1 (1 / 2 ^ 23)) 14 (Vec3 1 0 0))
       (unitGrid 3 3 3 (Vec3 1 1 (1 / 2 ^ 23))) 0 3 GS_RED BC_DIRICHLET)) ! 13
     \<noteq> claimedUpdate (Vec3 1 1 (1 / 2 ^ 23)) 3 (3 * 3)
         (mContents (unitGrid 3 3 3 (Vec3 1 1 (1 / 2 ^ 23))))
         (mContents (spikeGrid 3 3 3 (Vec3 1 1 (1 / 2 ^ 23)) 14 (Vec3 1 0 0))) (1, 1, 1)"
proof -
  let ?sp = "Vec3 1 1 (1 / 2 ^ 23) :: real Vec3"
  let ?soln = "spikeGrid 3 3 3 ?sp 14 (Vec3 1 0 0)"
  let ?lap = "unitGrid 3 3 3 ?sp"
  have d: "mNumPoints ?lap = (3, 3, 3)" by (simp add: unitGrid_def)
  have sz: "length (mContents ?soln) = 3 * 3 * 3" by (simp add: spikeGrid_def)
  have v: "interiorVisits 3 3 3 0 3 GS_RED = [] @ (1, 1, 1) # []"
    by (simp add: interiorVisits_nest nest3_def idxYShift_def iyStep_def forIndices.simps upt_rec)
  have code: "mContents (fst (StepTowardVectorPoissonSolution sqrt ?soln ?lap 0 3 GS_RED BC_DIRICHLET))
      ! 13 = Vec3 0.43 0 0"
    using Step_written_value(1) [OF d sz v, of sqrt BC_DIRICHLET]
    by (simp add: updatedVal_explicit [of _ 1 1 "1 / 2 ^ 23"] GetCellSpacing_def unitGrid_def
        spikeGrid_def offsetX0Y0Z0_def FLT_EPSILON_def Vec3_simps)
  have claim: "claimedUpdate ?sp 3 (3 * 3) (mContents ?lap) (mContents ?soln) (1, 1, 1)
      = Vec3 (1.72 * (0.5 / (2 + 2 ^ 46))) 0 0"
    by (simp add: claimedUpdate_def unitGrid_def spikeGrid_def offsetX0Y0Z0_def Vec3_simps
        power2_eq_square)
  show ?thesis
    unfolding code claim by simp
qed

text \<open>
  C1, in the form that holds on the code. Let an interior point be visited by a pass, let \<open>before\<close> be the
  solution array just before that visit (the array at entry after the updates of the
  points visited earlier, in place), and let the x and y spacings be non-zero. After
  the pass, whatever the colour and the boundary condition, the sample at the point is
  \<open>(1 - \<omega>) old + \<omega> H (\<Sum> r\<^sub>a (before[+1] + before[-1]) - source)\<close>, where \<open>old\<close> is the
  value the point had at entry, \<open>r\<^sub>a\<close> is \<open>1 / spacing\<^sub>a\<^sup>2\<close> for x and y, and for z it is
  \<open>1 / spacing.z\<^sup>2\<close> if \<open>spacing.z > FLT_EPSILON\<close> and 0 otherwise, \<open>H = 0.5 / \<Sum> r\<^sub>a\<close>
  and \<open>\<omega> = 1.72\<close>, which lies in \<open>[1, 2)\<close>.
\<close>

theorem interior_update_rule:
  assumes shape: "ShapeMatches soln lap" "Size soln = GetGridCapacity soln"
    and dims: "mNumPoints lap = (d0, d1, d2)"
    and spacing: "GetCellSpacing lap = Vec3 sx sy sz" "sx \<noteq> 0" "sy \<noteq> 0"
    and rz2: "rz2 = (if sz > FLT_EPSILON then 1 / sz\<^sup>2 else 0)"
    and visit: "interiorVisits d0 d1 d2 izStart izEnd redOrBlack = pre @ (ix, iy, iz) # post"
    and before: "before = fold (relaxWrite (Vec3 sx sy sz) d0 (d0 * d1) (mContents lap)) pre
                            (mContents soln)"
  shows "relax = 1.72 \<and> 1 \<le> relax \<and> relax < 2
    \<and> before ! offsetX0Y0Z0 d0 (d0 * d1) (ix, iy, iz)
        = mContents soln ! offsetX0Y0Z0 d0 (d0 * d1) (ix, iy, iz)
    \<and> mContents (fst (StepTowardVectorPoissonSolution fsqrtf soln lap izStart izEnd redOrBlack bc))
          ! offsetX0Y0Z0 d0 (d0 * d1) (ix, iy, iz)
        = (1 - 1.72) *\<^sub>R (before ! offsetX0Y0Z0 d0 (d0 * d1) (ix, iy, iz))
          + 1.72 *\<^sub>R
            ((0.5 / (1 / sx\<^sup>2 + 1 / sy\<^sup>2 + rz2)) *\<^sub>R
              ( (1 / sx\<^sup>2) *\<^sub>R (before ! offsetX0Y0Z0 d0 (d0 * d1) (ix + 1, iy, iz)
                                  + before ! offsetX0Y0Z0 d0 (d0 * d1) (ix - 1, iy, iz))
              + (1 / sy\<^sup>2) *\<^sub>R (before ! offsetX0Y0Z0 d0 (d0 * d1) (ix, iy + 1, iz)
                                  + before ! offsetX0Y0Z0 d0 (d0 * d1) (ix, iy - 1, iz))
              + rz2 *\<^sub>R (before ! offsetX0Y0Z0 d0 (d0 * d1) (ix, iy, iz + 1)
                          + before ! offsetX0Y0Z0 d0 (d0 * d1) (ix, iy, iz - 1))
              - mContents lap ! offsetX0Y0Z0 d0 (d0 * d1) (ix, iy, iz) ))"
proof -
  note size = full_size [OF shape dims]
  note w1 = Step_written_value(1) [OF dims size visit, of fsqrtf bc, unfolded spacing(1)]
  note w2 = Step_written_value(2) [OF dims size visit, unfolded spacing(1)]
  have a: "before ! offsetX0Y0Z0 d0 (d0 * d1) (ix, iy, iz)
        = mContents soln ! offsetX0Y0Z0 d0 (d0 * d1) (ix, iy, iz)"
    unfolding before by (rule w2)
  have b: "mContents (fst (StepTowardVectorPoissonSolution fsqrtf soln lap izStart izEnd redOrBlack bc))
          ! offsetX0Y0Z0 d0 (d0 * d1) (ix, iy, iz)
        = updatedVal (Vec3 sx sy sz) d0 (d0 * d1) (mContents lap) before (ix, iy, iz)"
    unfolding before by (rule w1)
  show ?thesis
    unfolding b rz2 updatedVal_explicit [OF refl] using relax_value a by simp
qed

theorem interior_update_rule_witness:
  "ShapeMatches (spikeGrid 3 3 3 (Vec3 1 1 1) 14 (Vec3 1 0 0)) (unitGrid 3 3 3 (Vec3 1 1 1))
   \<and> Size (spikeGrid 3 3 3 (Vec3 1 1 1) 14 (Vec3 1 0 0))
       = GetGridCapacity (spikeGrid 3 3 3 (Vec3 1 1 1) 14 (Vec3 1 0 0))
   \<and> mNumPoints (unitGrid 3 3 3 (Vec3 1 1 1)) = (3, 3, 3)
   \<and> GetCellSpacing (unitGrid 3 3 3 (Vec3 1 1 1)) = Vec3 1 1 1
   \<and> interiorVisits 3 3 3 0 3 GS_RED = [] @ (1, 1, 1) # []
   \<and> mContents (fst (StepTowardVectorPoissonSolution sqrt
         (spikeGrid 3 3 3 (Vec3 1 1 1) 14 (Vec3 1 0 0)) (unitGrid 3 3 3 (Vec3 1 1 1))
         0 3 GS_RED BC_NEUMANN)) ! 13 = Vec3 (43 / 150) 0 0"
proof -
  let ?soln = "spikeGrid 3 3 3 (Vec3 1 1 1) 14 (Vec3 1 0 0)"
  let ?lap = "unitGrid 3 3 3 (Vec3 1 1 1)"
  have d: "mNumPoints ?lap = (3, 3, 3)" by (simp add: unitGrid_def)
  have sh: "ShapeMatches ?soln ?lap"
    by (simp add: ShapeMatches_def spikeGrid_def unitGrid_def)
  have sz: "Size ?soln = GetGridCapacity ?soln"
    by (simp add: Size_def GetGridCapacity_def GetNumPoints_def spikeGrid_def)
  have sp: "GetCellSpacing ?lap = Vec3 1 1 1" by (simp add: unitGrid_def GetCellSpacing_def)
  have v: "interiorVisits 3 3 3 0 3 GS_RED = [] @ (1, 1, 1) # []"
    by (simp add: interiorVisits_nest nest3_def idxYShift_def iyStep_def forIndices.simps upt_rec)
  have "mContents (fst (StepTowardVectorPoissonSolution sqrt ?soln ?lap 0 3 GS_RED BC_NEUMANN))
      ! 13 = Vec3 (43 / 150) 0 0"
    using interior_update_rule [OF sh sz d sp _ _ refl v refl, of sqrt BC_NEUMANN]
    by (simp add: unitGrid_def spikeGrid_def offsetX0Y0Z0_def FLT_EPSILON_def Vec3_simps)
  with sh sz d sp v show ?thesis
    by (intro conjI)
qed

section \<open>Boundary samples under Neumann\<close>

text \<open>
  The loop over the +X face starts \<open>iy\<close> at 0 in every pass, where the loop over the
  -X face starts it at \<^verbatim>\<open>idxYShift\<close>. In a red or black pass \<open>iy\<close> steps by 2, so the
  rows of the +X face with odd \<open>iy\<close> that lie on no other face are assigned by no pass.
\<close>

lemma plusX_odd_rows_never_assigned:
  assumes "redOrBlack \<noteq> GS_BOTH" "odd iy" "iy < d1 - 1" "0 < iz" "iz < d2 - 1" "2 \<le> d0"
  shows "(d0 - 1, iy, iz) \<notin> set (boundaryVisits d0 d1 d2 izStart izEnd redOrBlack)"
proof -
  have "iy \<notin> set (forIndices 0 d1 (iyStep redOrBlack))"
    using assms(1,2) by (auto simp: forIndices_mem iyStep_def elim: oddE)
  moreover have "iy \<noteq> 0" using assms(2) by (auto elim: oddE)
  ultimately show ?thesis
    using assms(3-6) unfolding boundaryVisits_nest faceLists_def
    by (auto simp: set_nest3)
qed

text \<open>
  C2 does not hold on the code. After one full round (red pass, black pass, both over all of
  z) under Neumann on the \<open>3 \<times> 3 \<times> 3\<close> grid that is zero but for the sample at \<open>(2, 1, 1)\<close>,
  that sample, which lies on the +X face, still holds the caller's value \<open>(1, 0, 0)\<close>,
  while the adjacent interior sample at \<open>(1, 1, 1)\<close> holds \<open>(43/150, 0, 0)\<close>.
\<close>

theorem Neumann_plusX_face_not_assigned:
  "(Clamp 2 1 (3 - 1 - 1), Clamp 1 1 (3 - 1 - 1), Clamp 1 1 (3 - 1 - 1)) = (1, 1, 1)
   \<and> offsetX0Y0Z0 3 (3 * 3) (2, 1, 1) = 14
   \<and> offsetX0Y0Z0 3 (3 * 3) (1, 1, 1) = 13
   \<and> mContents (fst (SolveVectorPoisson sqrt (spikeGrid 3 3 3 (Vec3 1 1 1) 14 (Vec3 1 0 0))
         (unitGrid 3 3 3 (Vec3 1 1 1)) 1 BC_NEUMANN zeroStats)) ! 14 = Vec3 1 0 0
   \<and> mContents (fst (SolveVectorPoisson sqrt (spikeGrid 3 3 3 (Vec3 1 1 1) 14 (Vec3 1 0 0))
         (unitGrid 3 3 3 (Vec3 1 1 1)) 1 BC_NEUMANN zeroStats)) ! 13 = Vec3 (43 / 150) 0 0"
proof -
  let ?soln = "spikeGrid 3 3 3 (Vec3 1 1 1) 14 (Vec3 1 0 0)"
  let ?lap = "unitGrid 3 3 3 (Vec3 1 1 1)"
  let ?red = "fst (StepTowardVectorPoissonSolution sqrt ?soln ?lap 0 3 GS_RED BC_NEUMANN)"
  let ?black = "fst (StepTowardVectorPoissonSolution sqrt ?red ?lap 0 3 GS_BLACK BC_NEUMANN)"
  have d: "mNumPoints ?lap = (3, 3, 3)" by (simp add: unitGrid_def)
  have sz: "length (mContents ?soln) = 3 * 3 * 3" by (simp add: spikeGrid_def)
  have sp: "GetCellSpacing ?lap = Vec3 1 1 1" by (simp add: unitGrid_def GetCellSpacing_def)
  have o14: "offsetX0Y0Z0 3 (3 * 3) (2, 1, 1) = 14" and o13: "offsetX0Y0Z0 3 (3 * 3) (1, 1, 1) = 13"
    by (simp_all add: offsetX0Y0Z0_def)
  have cl: "(Clamp 2 1 (3 - 1 - 1), Clamp 1 1 (3 - 1 - 1), Clamp 1 1 (3 - 1 - 1)) = (1, 1, 1)"
    by (simp add: Clamp_def)
  have numZ: "GetNumPoints ?soln 2 = 3" by (simp add: GetNumPoints_def spikeGrid_def)
  have solve: "fst (SolveVectorPoisson sqrt ?soln ?lap 1 BC_NEUMANN zeroStats) = ?black"
    by (simp add: SolveVectorPoisson_funpow solveIteration_def Let_def numZ)
  have face: "mContents (fst (StepTowardVectorPoissonSolution sqrt s ?lap 0 3 rb BC_NEUMANN)) ! 14
      = mContents s ! 14" if "rb \<noteq> GS_BOTH" for s rb
    unfolding o14 [symmetric]
  proof (rule Step_frame [OF d])
    fix p assume p: "p \<in> set (interiorVisits 3 3 3 0 3 rb)"
    obtain jx jy jz where q: "p = (jx, jy, jz)" by (cases p) auto
    from p have "jx < 2" "jy < 2" unfolding q interiorVisits_mem by simp_all
    then show "offsetX0Y0Z0 3 (3 * 3) p \<noteq> offsetX0Y0Z0 3 (3 * 3) (2, 1, 1)"
      unfolding q by (intro offset_neq) auto
  next
    fix p assume p: "p \<in> set (boundaryVisits 3 3 3 0 3 rb)"
    obtain jx jy jz where q: "p = (jx, jy, jz)" by (cases p) auto
    have "(3 - 1, 1, 1) \<notin> set (boundaryVisits 3 3 3 0 3 rb)"
      by (rule plusX_odd_rows_never_assigned) (use that in simp_all)
    with p have "(jx, jy, jz) \<noteq> (2, 1, 1)" unfolding q by auto
    moreover from boundaryVisits_on_face [OF p [unfolded q]] have "jx < 3" "jy < 3" by simp_all
    ultimately show "offsetX0Y0Z0 3 (3 * 3) p \<noteq> offsetX0Y0Z0 3 (3 * 3) (2, 1, 1)"
      unfolding q by (intro offset_neq) auto
  qed
  have "mContents ?black ! 14 = mContents ?soln ! 14"
    by (simp add: face)
  then have a: "mContents ?black ! 14 = Vec3 1 0 0"
    by (simp add: spikeGrid_def)
  have v: "interiorVisits 3 3 3 0 3 GS_RED = [] @ (1, 1, 1) # []"
    by (simp add: interiorVisits_nest nest3_def idxYShift_def iyStep_def forIndices.simps upt_rec)
  have r: "mContents ?red ! 13 = Vec3 (43 / 150) 0 0"
    using Step_written_value(1) [OF d sz v, of sqrt BC_NEUMANN]
    by (simp add: updatedVal_explicit [of _ 1 1 1] GetCellSpacing_def unitGrid_def
        spikeGrid_def offsetX0Y0Z0_def FLT_EPSILON_def Vec3_simps)
  have "mContents ?black ! 13 = mContents ?red ! 13"
    unfolding o13 [symmetric]
    by (rule Step_interior_frame [OF d]) (simp_all add: interiorVisits_mem)
  with r have b: "mContents ?black ! 13 = Vec3 (43 / 150) 0 0"
    by simp
  from cl o14 o13 a b show ?thesis
    unfolding solve by (intro conjI)
qed

section \<open>Values written by the gradient\<close>

lemma gradientFaceLoops_fold:
  "gradientFaceLoops d0 d1 d2 body s = fold body (gradientFaceList d0 d1 d2) s"
proof -
  have x: "forLoop 0 d2 1 (\<lambda>iz. forLoop 0 d1 1 (\<lambda>iy. body (c, iy, iz))) t
      = fold body (nest3 [0..<d2] (\<lambda>iz. [0..<d1]) [c]) t" for c t
    unfolding forLoop_fold forIndices_unit by (rule fold_nest3_fixed_x)
  have y: "forLoop 0 d2 1 (\<lambda>iz. forLoop 0 d0 1 (\<lambda>ix. body (ix, c, iz))) t
      = fold body (nest3 [0..<d2] (\<lambda>iz. [c]) [0..<d0]) t" for c t
    unfolding forLoop_fold forIndices_unit by (rule fold_nest3_fixed_y)
  have z: "forLoop 0 d1 1 (\<lambda>iy. forLoop 0 d0 1 (\<lambda>ix. body (ix, iy, c))) t
      = fold body (nest3 [c] (\<lambda>iz. [0..<d1]) [0..<d0]) t" for c t
    unfolding forLoop_fold forIndices_unit by (rule fold_nest3_fixed_z)
  show ?thesis
    unfolding gradientFaceLoops_def Let_def x y z gradientFaceList_def
    by (simp only: fold_append comp_def)
qed

lemma gradientFaceList_mem:
  assumes "0 < d0" "0 < d1" "0 < d2"
  shows "(ix, iy, iz) \<in> set (gradientFaceList d0 d1 d2) \<longleftrightarrow>
     ix < d0 \<and> iy < d1 \<and> iz < d2
       \<and> (ix = 0 \<or> ix = d0 - 1 \<or> iy = 0 \<or> iy = d1 - 1 \<or> iz = 0 \<or> iz = d2 - 1)"
  using assms unfolding gradientFaceList_def by (auto simp: set_nest3)

lemma interiorSlice_contents:
  "mContents (ComputeGradientInteriorSlice gradientGrid val izStart izEnd) =
     fold (\<lambda>idx gradients.
             gradients[offsetX0Y0Z0 (GetNumPoints val 0) (GetNumPoints val 0 * GetNumPoints val 1) idx :=
               centeredGradient (GetCellSpacing val) (GetNumPoints val 0)
                 (GetNumPoints val 0 * GetNumPoints val 1) (mContents val) idx])
       (nest3 [izStart..<izEnd] (\<lambda>iz. [1..<GetNumPoints val 1 - 1]) [1..<GetNumPoints val 0 - 1])
       (mContents gradientGrid)"
proof -
  have "forLoop izStart izEnd 1 (\<lambda>iz. forLoop 1 e1 1 (\<lambda>iy. forLoop 1 e0 1 (\<lambda>ix. body (ix, iy, iz)))) s
      = fold body (nest3 [izStart..<izEnd] (\<lambda>iz. [1..<e1]) [1..<e0]) s" for e0 e1 body s
    unfolding forLoop_fold forIndices_unit by (rule fold_nest3)
  then show ?thesis
    by (simp add: ComputeGradientInteriorSlice_def Let_def)
qed

lemma fold_write_same:
  assumes "p \<in> set ps" "off p < length s"
    and "\<And>q. q \<in> set ps \<Longrightarrow> off q = off p \<Longrightarrow> F q = F p"
  shows "fold (\<lambda>q g. g[off q := F q]) ps s ! off p = F p"
  using assms
proof (induction ps rule: rev_induct)
  case Nil
  then show ?case by simp
next
  case (snoc q qs)
  have len: "length (fold (\<lambda>q g. g[off q := F q]) qs s) = length s"
    by (rule fold_length) simp
  show ?case
  proof (cases "off q = off p")
    case True
    have "F q = F p"
      by (rule snoc.prems(3)) (simp_all add: True)
    then show ?thesis
      using True snoc.prems(2) len by simp
  next
    case False
    with snoc.prems(1) have mem: "p \<in> set qs" by auto
    have "fold (\<lambda>q g. g[off q := F q]) qs s ! off p = F p"
      by (rule snoc.IH [OF mem snoc.prems(2)]) (rule snoc.prems(3), simp_all)
    then show ?thesis
      using False by simp
  qed
qed

lemma centered_is_boundary:
  assumes "0 < ix" "ix < d0 - 1" "0 < iy" "iy < d1 - 1" "0 < iz" "iz < d2 - 1"
  shows "centeredGradient spacing d0 (d0 * d1) val (ix, iy, iz)
           = boundaryGradient spacing d0 d1 d2 val (ix, iy, iz)"
  using assms by (simp add: centeredGradient_def boundaryGradient_def Let_def)

text \<open>Every sample of the gradient grid is the value of the boundary macro at its point.\<close>

lemma ComputeGradient_value:
  assumes dims: "mNumPoints scalarVals = (d0, d1, d2)"
    and size: "length (mContents gradientGrid) = d0 * d1 * d2"
    and p: "ix < d0" "iy < d1" "iz < d2"
  shows "mContents (ComputeGradient gradientGrid scalarVals) ! offsetX0Y0Z0 d0 (d0 * d1) (ix, iy, iz)
     = boundaryGradient (GetCellSpacing scalarVals) d0 d1 d2 (mContents scalarVals) (ix, iy, iz)"
proof -
  let ?o = "offsetX0Y0Z0 d0 (d0 * d1)"
  let ?B = "boundaryGradient (GetCellSpacing scalarVals) d0 d1 d2 (mContents scalarVals)"
  let ?C = "centeredGradient (GetCellSpacing scalarVals) d0 (d0 * d1) (mContents scalarVals)"
  let ?I = "nest3 [1..<d2 - 1] (\<lambda>iz. [1..<d1 - 1]) [1..<d0 - 1]"
  let ?s1 = "fold (\<lambda>q g. g[?o q := ?C q]) ?I (mContents gradientGrid)"
  have g: "GetNumPoints scalarVals 0 = d0" "GetNumPoints scalarVals (Suc 0) = d1"
      "GetNumPoints scalarVals 2 = d2"
    using dims by (simp_all add: GetNumPoints_def)
  have pos: "0 < d0" "0 < d1" "0 < d2" using p by auto
  have res: "mContents (ComputeGradient gradientGrid scalarVals)
      = fold (\<lambda>q g. g[?o q := ?B q]) (gradientFaceList d0 d1 d2) ?s1"
    by (simp add: ComputeGradient_def Let_def g gradientFaceLoops_fold interiorSlice_contents)
  have len1: "length ?s1 = d0 * d1 * d2"
    using size by (simp add: fold_length)
  have inb: "?o (ix, iy, iz) < d0 * d1 * d2"
    using p by (rule offset_bound)
  show ?thesis
  proof (cases "(ix, iy, iz) \<in> set (gradientFaceList d0 d1 d2)")
    case True
    show ?thesis
      unfolding res
    proof (rule fold_write_same [OF True])
      show "?o (ix, iy, iz) < length ?s1" using inb len1 by simp
    next
      fix q assume q: "q \<in> set (gradientFaceList d0 d1 d2)" "?o q = ?o (ix, iy, iz)"
      obtain jx jy jz where qq: "q = (jx, jy, jz)" by (cases q) auto
      from q(1) have "jx < d0" "jy < d1"
        unfolding qq gradientFaceList_mem [OF pos] by simp_all
      with q(2) p have "q = (ix, iy, iz)"
        unfolding qq using offset_neq [of jx d0 ix jy d1 iy jz iz] by auto
      then show "?B q = ?B (ix, iy, iz)" by simp
    qed
  next
    case False
    then have int: "0 < ix" "ix < d0 - 1" "0 < iy" "iy < d1 - 1" "0 < iz" "iz < d2 - 1"
      unfolding gradientFaceList_mem [OF pos] using p by auto
    have "fold (\<lambda>q g. g[?o q := ?B q]) (gradientFaceList d0 d1 d2) ?s1 ! ?o (ix, iy, iz)
        = ?s1 ! ?o (ix, iy, iz)"
    proof (rule fold_frame)
      fix q g assume q: "q \<in> set (gradientFaceList d0 d1 d2)"
      obtain jx jy jz where qq: "q = (jx, jy, jz)" by (cases q) auto
      from q have "jx < d0" "jy < d1" unfolding qq gradientFaceList_mem [OF pos] by simp_all
      moreover from q False have "(jx, jy, jz) \<noteq> (ix, iy, iz)" unfolding qq by auto
      ultimately have "?o q \<noteq> ?o (ix, iy, iz)"
        unfolding qq using p by (intro offset_neq) auto
      then show "g[?o q := ?B q] ! ?o (ix, iy, iz) = g ! ?o (ix, iy, iz)" by simp
    qed
    also have "\<dots> = ?C (ix, iy, iz)"
    proof (rule fold_write_same)
      show "(ix, iy, iz) \<in> set ?I" using int by (simp add: set_nest3)
      show "?o (ix, iy, iz) < length (mContents gradientGrid)" using inb size by simp
    next
      fix q assume q: "q \<in> set ?I" "?o q = ?o (ix, iy, iz)"
      obtain jx jy jz where qq: "q = (jx, jy, jz)" by (cases q) auto
      from q(1) have "jx < d0" "jy < d1"
        unfolding qq by (auto simp: set_nest3)
      with q(2) p have "q = (ix, iy, iz)"
        unfolding qq using offset_neq [of jx d0 ix jy d1 iy jz iz] by auto
      then show "?C q = ?C (ix, iy, iz)" by simp
    qed
    also have "\<dots> = ?B (ix, iy, iz)"
      using int by (rule centered_is_boundary)
    finally show ?thesis unfolding res .
  qed
qed

lemma boundaryGradient_explicit:
  assumes sp: "spacing = Vec3 sx sy sz"
    and f: "\<And>jx jy jz. f jx jy jz = val ! offsetX0Y0Z0 d0 (d0 * d1) (jx, jy, jz)"
  shows "boundaryGradient spacing d0 d1 d2 val (ix, iy, iz) =
     Vec3 (if ix = 0 then (f (ix + 1) iy iz - f ix iy iz) * (1 / sx)
           else if ix = d0 - 1 then (f ix iy iz - f (ix - 1) iy iz) * (1 / sx)
           else (f (ix + 1) iy iz - f (ix - 1) iy iz) * (0.5 * (1 / sx)))
          (if iy = 0 then (f ix (iy + 1) iz - f ix iy iz) * (1 / sy)
           else if iy = d1 - 1 then (f ix iy iz - f ix (iy - 1) iz) * (1 / sy)
           else (f ix (iy + 1) iz - f ix (iy - 1) iz) * (0.5 * (1 / sy)))
          (if iz = 0 then (f ix iy (iz + 1) - f ix iy iz) * (if sz > FLT_EPSILON then 1 / sz else 0)
           else if iz = d2 - 1
             then (f ix iy iz - f ix iy (iz - 1)) * (if sz > FLT_EPSILON then 1 / sz else 0)
           else (f ix iy (iz + 1) - f ix iy (iz - 1))
                  * (0.5 * (if sz > FLT_EPSILON then 1 / sz else 0)))"
  unfolding boundaryGradient_def Let_def halfReciprocalSpacing_def reciprocalSpacing_def sp f
    offsetX0Y0Z0_def offsetXMY0Z0_def offsetXPY0Z0_def offsetX0YMZ0_def offsetX0YPZ0_def
    offsetX0Y0ZM_def offsetX0Y0ZP_def
  by (simp add: scaleR_Vec3_def)

lemma sampled_nth:
  "k < n0 * n1 * n2 \<Longrightarrow> mContents (sampledGrid n0 n1 n2 spacing f) ! k = f k"
  by (simp add: sampledGrid_def)

section \<open>The gradient of a field linear in x\<close>

text \<open>
  On a grid with x spacing 2 whose samples are the physical x coordinate (0, 2, 4 along
  x), the gradient at the centre is \<open>(1, 0, 0)\<close> and not \<open>(1 / spacing.x, 0, 0) =
  (1/2, 0, 0)\<close>.
\<close>

theorem gradient_of_physical_x_counterexample:
  "mContents (sampledGrid 3 3 3 (Vec3 2 1 1) (\<lambda>offset. 2 * real (offset mod 3))) ! 12 = 2 * 0
   \<and> mContents (sampledGrid 3 3 3 (Vec3 2 1 1) (\<lambda>offset. 2 * real (offset mod 3))) ! 13 = 2 * 1
   \<and> mContents (sampledGrid 3 3 3 (Vec3 2 1 1) (\<lambda>offset. 2 * real (offset mod 3))) ! 14 = 2 * 2
   \<and> mContents (ComputeGradient (unitGrid 3 3 3 (Vec3 2 1 1))
         (sampledGrid 3 3 3 (Vec3 2 1 1) (\<lambda>offset. 2 * real (offset mod 3)))) ! 13
       = Vec3 1 0 0
   \<and> mContents (ComputeGradient (unitGrid 3 3 3 (Vec3 2 1 1))
         (sampledGrid 3 3 3 (Vec3 2 1 1) (\<lambda>offset. 2 * real (offset mod 3)))) ! 13
       \<noteq> Vec3 (1 / 2) 0 0"
proof -
  let ?v = "sampledGrid 3 3 3 (Vec3 2 1 1) (\<lambda>offset. 2 * real (offset mod 3)) :: real UniformGrid"
  let ?g = "unitGrid 3 3 3 (Vec3 2 1 1)"
  have d: "mNumPoints ?v = (3, 3, 3)" by (simp add: sampledGrid_def)
  have sz: "length (mContents ?g) = 3 * 3 * 3" by (simp add: unitGrid_def)
  have "mContents (ComputeGradient ?g ?v) ! offsetX0Y0Z0 3 (3 * 3) (1, 1, 1)
      = boundaryGradient (GetCellSpacing ?v) 3 3 3 (mContents ?v) (1, 1, 1)"
    by (rule ComputeGradient_value [OF d sz]) simp_all
  then have v: "mContents (ComputeGradient ?g ?v) ! 13 = Vec3 1 0 0"
    by (simp add: offsetX0Y0Z0_def boundaryGradient_def Let_def sampled_nth GetCellSpacing_def
        offsetXMY0Z0_def offsetXPY0Z0_def offsetX0YMZ0_def offsetX0YPZ0_def
        offsetX0Y0ZM_def offsetX0Y0ZP_def halfReciprocalSpacing_def reciprocalSpacing_def
        scaleR_Vec3_def FLT_EPSILON_def)
       (simp add: sampledGrid_def)
  show ?thesis
    unfolding v by (simp add: sampled_nth)
qed

text \<open>
  C7, in the form that holds on the code. On a grid with at least two points per axis and non-zero x and y
  spacing, \<^verbatim>\<open>ComputeGradient\<close> writes at every point, per axis, the one-sided difference
  \<open>(f[adj] - f[self]) * 1/spacing\<close> where the index is 0 or \<open>dims - 1\<close> and the centred
  difference \<open>(f[+1] - f[-1]) * 0.5/spacing\<close> elsewhere (with 0 for \<open>1 / spacing.z\<close> when
  \<open>spacing.z \<le> FLT_EPSILON\<close>). If the samples are \<open>a + c * ix\<close>, it writes
  \<open>(c / spacing.x, 0, 0)\<close> at every point, interior and faces: \<open>(1, 0, 0)\<close> for the
  physical x coordinate (\<open>c = spacing.x\<close>), and \<open>(1 / spacing.x, 0, 0)\<close> for samples
  equal to the x index (\<open>c = 1\<close>).
\<close>

theorem ComputeGradient_linear_in_x:
  assumes shape: "ShapeMatches gradientGrid scalarVals"
      "Size gradientGrid = GetGridCapacity gradientGrid"
    and dims: "mNumPoints scalarVals = (d0, d1, d2)" "2 \<le> d0" "2 \<le> d1" "2 \<le> d2"
    and spacing: "GetCellSpacing scalarVals = Vec3 sx sy sz" "sx \<noteq> 0" "sy \<noteq> 0"
    and rz: "rz = (if sz > FLT_EPSILON then 1 / sz else 0)"
    and f: "\<And>jx jy jz. f jx jy jz = mContents scalarVals ! (jx + d0 * jy + d0 * d1 * jz)"
    and p: "ix < d0" "iy < d1" "iz < d2"
  shows "mContents (ComputeGradient gradientGrid scalarVals) ! (ix + d0 * iy + d0 * d1 * iz) =
     Vec3 (if ix = 0 then (f (ix + 1) iy iz - f ix iy iz) * (1 / sx)
           else if ix = d0 - 1 then (f ix iy iz - f (ix - 1) iy iz) * (1 / sx)
           else (f (ix + 1) iy iz - f (ix - 1) iy iz) * (0.5 * (1 / sx)))
          (if iy = 0 then (f ix (iy + 1) iz - f ix iy iz) * (1 / sy)
           else if iy = d1 - 1 then (f ix iy iz - f ix (iy - 1) iz) * (1 / sy)
           else (f ix (iy + 1) iz - f ix (iy - 1) iz) * (0.5 * (1 / sy)))
          (if iz = 0 then (f ix iy (iz + 1) - f ix iy iz) * rz
           else if iz = d2 - 1 then (f ix iy iz - f ix iy (iz - 1)) * rz
           else (f ix iy (iz + 1) - f ix iy (iz - 1)) * (0.5 * rz))
   \<and> ((\<forall>jx jy jz. jx < d0 \<and> jy < d1 \<and> jz < d2 \<longrightarrow> f jx jy jz = a + c * real jx) \<longrightarrow>
        mContents (ComputeGradient gradientGrid scalarVals) ! (ix + d0 * iy + d0 * d1 * iz)
          = Vec3 (c / sx) 0 0)"
proof -
  have off: "jx + d0 * jy + d0 * d1 * jz = offsetX0Y0Z0 d0 (d0 * d1) (jx, jy, jz)" for jx jy jz
    by (simp add: offsetX0Y0Z0_def)
  have f': "f jx jy jz = mContents scalarVals ! offsetX0Y0Z0 d0 (d0 * d1) (jx, jy, jz)" for jx jy jz
    unfolding f off ..
  note size = full_size [OF shape dims(1)]
  note v = ComputeGradient_value [OF dims(1) size p, unfolded spacing(1),
      unfolded boundaryGradient_explicit [OF refl f']]
  have stencil: "mContents (ComputeGradient gradientGrid scalarVals) ! (ix + d0 * iy + d0 * d1 * iz) =
     Vec3 (if ix = 0 then (f (ix + 1) iy iz - f ix iy iz) * (1 / sx)
           else if ix = d0 - 1 then (f ix iy iz - f (ix - 1) iy iz) * (1 / sx)
           else (f (ix + 1) iy iz - f (ix - 1) iy iz) * (0.5 * (1 / sx)))
          (if iy = 0 then (f ix (iy + 1) iz - f ix iy iz) * (1 / sy)
           else if iy = d1 - 1 then (f ix iy iz - f ix (iy - 1) iz) * (1 / sy)
           else (f ix (iy + 1) iz - f ix (iy - 1) iz) * (0.5 * (1 / sy)))
          (if iz = 0 then (f ix iy (iz + 1) - f ix iy iz) * rz
           else if iz = d2 - 1 then (f ix iy iz - f ix iy (iz - 1)) * rz
           else (f ix iy (iz + 1) - f ix iy (iz - 1)) * (0.5 * rz))"
    unfolding off rz by (rule v)
  have lin: "mContents (ComputeGradient gradientGrid scalarVals) ! (ix + d0 * iy + d0 * d1 * iz)
          = Vec3 (c / sx) 0 0"
    if L: "\<forall>jx jy jz. jx < d0 \<and> jy < d1 \<and> jz < d2 \<longrightarrow> f jx jy jz = a + c * real jx"
  proof -
    have x: "(if ix = 0 then (f (ix + 1) iy iz - f ix iy iz) * (1 / sx)
           else if ix = d0 - 1 then (f ix iy iz - f (ix - 1) iy iz) * (1 / sx)
           else (f (ix + 1) iy iz - f (ix - 1) iy iz) * (0.5 * (1 / sx))) = c / sx"
    proof -
      consider "ix = 0" | "ix \<noteq> 0" "ix = d0 - 1" | "ix \<noteq> 0" "ix \<noteq> d0 - 1" by blast
      then show ?thesis
      proof cases
        case 1
        with dims(2) p have "f (ix + 1) iy iz = a + c * real (ix + 1)" "f ix iy iz = a + c * real ix"
          using L by auto
        then have "f (ix + 1) iy iz - f ix iy iz = c" by (simp add: algebra_simps)
        with 1 show ?thesis by simp
      next
        case 2
        with p have "f ix iy iz = a + c * real ix" "f (ix - 1) iy iz = a + c * real (ix - 1)"
          using L by auto
        moreover from 2 have "real (ix - 1) = real ix - 1" by (simp add: of_nat_diff)
        ultimately have "f ix iy iz - f (ix - 1) iy iz = c" by (simp add: algebra_simps)
        with 2 show ?thesis by simp
      next
        case 3
        with p have b: "ix + 1 < d0" "ix - 1 < d0" by auto
        with p have "f (ix + 1) iy iz = a + c * real (ix + 1)"
          "f (ix - 1) iy iz = a + c * real (ix - 1)"
          using L by auto
        moreover from 3 have "real (ix - 1) = real ix - 1" by (simp add: of_nat_diff)
        ultimately have "f (ix + 1) iy iz - f (ix - 1) iy iz = 2 * c" by (simp add: algebra_simps)
        with 3 show ?thesis by simp
      qed
    qed
    have y: "(if iy = 0 then (f ix (iy + 1) iz - f ix iy iz) * (1 / sy)
           else if iy = d1 - 1 then (f ix iy iz - f ix (iy - 1) iz) * (1 / sy)
           else (f ix (iy + 1) iz - f ix (iy - 1) iz) * (0.5 * (1 / sy))) = 0"
    proof -
      consider "iy = 0" | "iy \<noteq> 0" "iy = d1 - 1" | "iy \<noteq> 0" "iy \<noteq> d1 - 1" by blast
      then show ?thesis
      proof cases
        case 1
        with dims(3) p have "f ix (iy + 1) iz = a + c * real ix" "f ix iy iz = a + c * real ix"
          using L by auto
        with 1 show ?thesis by simp
      next
        case 2
        with p have "f ix iy iz = a + c * real ix" "f ix (iy - 1) iz = a + c * real ix"
          using L by auto
        with 2 show ?thesis by simp
      next
        case 3
        with p have b: "iy + 1 < d1" "iy - 1 < d1" by auto
        with p have "f ix (iy + 1) iz = a + c * real ix" "f ix (iy - 1) iz = a + c * real ix"
          using L by auto
        with 3 show ?thesis by simp
      qed
    qed
    have z: "(if iz = 0 then (f ix iy (iz + 1) - f ix iy iz) * rz
           else if iz = d2 - 1 then (f ix iy iz - f ix iy (iz - 1)) * rz
           else (f ix iy (iz + 1) - f ix iy (iz - 1)) * (0.5 * rz)) = 0"
    proof -
      consider "iz = 0" | "iz \<noteq> 0" "iz = d2 - 1" | "iz \<noteq> 0" "iz \<noteq> d2 - 1" by blast
      then show ?thesis
      proof cases
        case 1
        with dims(4) p have "f ix iy (iz + 1) = a + c * real ix" "f ix iy iz = a + c * real ix"
          using L by auto
        with 1 show ?thesis by simp
      next
        case 2
        with p have "f ix iy iz = a + c * real ix" "f ix iy (iz - 1) = a + c * real ix"
          using L by auto
        with 2 show ?thesis by simp
      next
        case 3
        with p have b: "iz + 1 < d2" "iz - 1 < d2" by auto
        with p have "f ix iy (iz + 1) = a + c * real ix" "f ix iy (iz - 1) = a + c * real ix"
          using L by auto
        with 3 show ?thesis by simp
      qed
    qed
    show ?thesis
      unfolding stencil x y z ..
  qed
  from stencil lin show ?thesis
    by blast
qed

theorem ComputeGradient_linear_in_x_witness:
  "mNumPoints (sampledGrid 3 3 3 (Vec3 2 1 1) (\<lambda>offset. 5 + 2 * real (offset mod 3))
                :: real UniformGrid) = (3, 3, 3)
   \<and> ShapeMatches (unitGrid 3 3 3 (Vec3 2 1 1))
         (sampledGrid 3 3 3 (Vec3 2 1 1) (\<lambda>offset. 5 + 2 * real (offset mod 3)) :: real UniformGrid)
   \<and> Size (unitGrid 3 3 3 (Vec3 2 1 1)) = GetGridCapacity (unitGrid 3 3 3 (Vec3 2 1 1))
   \<and> GetCellSpacing (sampledGrid 3 3 3 (Vec3 2 1 1) (\<lambda>offset. 5 + 2 * real (offset mod 3))
                :: real UniformGrid) = Vec3 2 1 1
   \<and> mContents (ComputeGradient (unitGrid 3 3 3 (Vec3 2 1 1))
         (sampledGrid 3 3 3 (Vec3 2 1 1) (\<lambda>offset. 5 + 2 * real (offset mod 3)))) ! 13
       = Vec3 1 0 0
   \<and> mContents (ComputeGradient (unitGrid 3 3 3 (Vec3 2 1 1))
         (sampledGrid 3 3 3 (Vec3 2 1 1) (\<lambda>offset. 5 + 2 * real (offset mod 3)))) ! 26
       = Vec3 1 0 0"
proof -
  let ?v = "sampledGrid 3 3 3 (Vec3 2 1 1) (\<lambda>offset. 5 + 2 * real (offset mod 3)) :: real UniformGrid"
  let ?g = "unitGrid 3 3 3 (Vec3 2 1 1)"
  let ?f = "\<lambda>jx jy jz. mContents ?v ! (jx + 3 * jy + 3 * 3 * jz)"
  have d: "mNumPoints ?v = (3, 3, 3)" by (simp add: sampledGrid_def)
  have sh: "ShapeMatches ?g ?v"
    by (simp add: ShapeMatches_def sampledGrid_def unitGrid_def)
  have sz: "Size ?g = GetGridCapacity ?g"
    by (simp add: Size_def GetGridCapacity_def GetNumPoints_def unitGrid_def)
  have sp: "GetCellSpacing ?v = Vec3 2 1 1" by (simp add: sampledGrid_def GetCellSpacing_def)
  have lin: "\<forall>jx jy jz. jx < 3 \<and> jy < 3 \<and> jz < 3 \<longrightarrow> ?f jx jy jz = 5 + 2 * real jx"
  proof (intro allI impI)
    fix jx jy jz :: nat assume b: "jx < 3 \<and> jy < 3 \<and> jz < 3"
    then have "jx + 3 * jy + 3 * 3 * jz < 3 * 3 * 3" by simp
    moreover from b have "(jx + 3 * jy + 3 * 3 * jz) mod 3 = jx" by presburger
    ultimately show "?f jx jy jz = 5 + 2 * real jx" by (simp add: sampled_nth)
  qed
  have pf: "?f jx jy jz = mContents ?v ! (jx + 3 * jy + 3 * 3 * jz)" for jx jy jz ..
  have "(\<forall>jx jy jz. jx < 3 \<and> jy < 3 \<and> jz < 3 \<longrightarrow> ?f jx jy jz = 5 + 2 * real jx) \<longrightarrow>
      mContents (ComputeGradient ?g ?v) ! (1 + 3 * 1 + 3 * 3 * 1) = Vec3 (2 / 2) 0 0"
    by (rule ComputeGradient_linear_in_x [OF sh sz d _ _ _ sp _ _ refl pf, THEN conjunct2])
      simp_all
  with lin have a: "mContents (ComputeGradient ?g ?v) ! 13 = Vec3 1 0 0"
    by simp
  have "(\<forall>jx jy jz. jx < 3 \<and> jy < 3 \<and> jz < 3 \<longrightarrow> ?f jx jy jz = 5 + 2 * real jx) \<longrightarrow>
      mContents (ComputeGradient ?g ?v) ! (2 + 3 * 2 + 3 * 3 * 2) = Vec3 (2 / 2) 0 0"
    by (rule ComputeGradient_linear_in_x [OF sh sz d _ _ _ sp _ _ refl pf, THEN conjunct2])
      simp_all
  with lin have b: "mContents (ComputeGradient ?g ?v) ! 26 = Vec3 1 0 0"
    by simp
  from d sh sz sp a b show ?thesis
    by (intro conjI)
qed

section \<open>Values written by the conditional gradient\<close>

lemma fold_write_at:
  assumes "ps = pre @ p # post" "off p < length s"
    and "\<And>q. q \<in> set post \<Longrightarrow> off q \<noteq> off p"
  shows "fold (\<lambda>q g. g[off q := F q g]) ps s ! off p
           = F p (fold (\<lambda>q g. g[off q := F q g]) pre s)"
proof -
  let ?w = "\<lambda>q g. g[off q := F q g]"
  have len: "length (fold ?w pre s) = length s"
    by (rule fold_length) simp
  have "fold ?w ps s ! off p = fold ?w post (?w p (fold ?w pre s)) ! off p"
    by (simp add: assms(1))
  also have "\<dots> = ?w p (fold ?w pre s) ! off p"
    by (rule fold_frame) (use assms(3) in simp)
  also have "\<dots> = F p (fold ?w pre s)"
    using assms(2) len by simp
  finally show ?thesis .
qed

lemma conditionalSlice_contents:
  "mContents (ComputeGradientConditionallySlice gradientGrid scalarVals izStart izEnd) =
     fold (\<lambda>idx gradients.
             gradients[offsetX0Y0Z0 (GetNumPoints scalarVals 0)
                         (GetNumPoints scalarVals 0 * GetNumPoints scalarVals 1) idx :=
               conditionalGradient (GetCellSpacing scalarVals) (GetNumPoints scalarVals 0)
                 (GetNumPoints scalarVals 1) (GetNumPoints scalarVals 2) (mContents scalarVals) idx
                 (gradients ! offsetX0Y0Z0 (GetNumPoints scalarVals 0)
                         (GetNumPoints scalarVals 0 * GetNumPoints scalarVals 1) idx)])
       (nest3 [izStart..<izEnd] (\<lambda>iz. [1..<GetNumPoints scalarVals 1]) [1..<GetNumPoints scalarVals 0])
       (mContents gradientGrid)"
proof -
  have "forLoop izStart izEnd 1 (\<lambda>iz. forLoop 1 e1 1 (\<lambda>iy. forLoop 1 e0 1 (\<lambda>ix. body (ix, iy, iz)))) s
      = fold body (nest3 [izStart..<izEnd] (\<lambda>iz. [1..<e1]) [1..<e0]) s" for e0 e1 body s
    unfolding forLoop_fold forIndices_unit by (rule fold_nest3)
  then show ?thesis
    by (simp add: ComputeGradientConditionallySlice_def Let_def)
qed

text \<open>
  The sample the conditional gradient leaves at a point it processes is the value of
  the three macro calls there.
\<close>

lemma ComputeGradientConditionally_value:
  assumes dims: "mNumPoints scalarVals = (d0, d1, d2)"
    and size: "length (mContents gradient) = d0 * d1 * d2"
    and p: "0 < ix" "ix < d0" "0 < iy" "iy < d1" "0 < iz" "iz < d2"
  shows "\<exists>old. mContents (ComputeGradientConditionally gradient scalarVals)
              ! offsetX0Y0Z0 d0 (d0 * d1) (ix, iy, iz)
     = conditionalGradient (GetCellSpacing scalarVals) d0 d1 d2 (mContents scalarVals)
         (ix, iy, iz) old"
proof -
  let ?o = "offsetX0Y0Z0 d0 (d0 * d1)"
  let ?V = "nest3 [1..<d2] (\<lambda>iz. [1..<d1]) [1..<d0]"
  let ?F = "\<lambda>q g. conditionalGradient (GetCellSpacing scalarVals) d0 d1 d2 (mContents scalarVals) q
      (g ! ?o q)"
  have g: "GetNumPoints scalarVals 0 = d0" "GetNumPoints scalarVals (Suc 0) = d1"
      "GetNumPoints scalarVals 2 = d2"
    using dims by (simp_all add: GetNumPoints_def)
  have res: "mContents (ComputeGradientConditionally gradient scalarVals)
      = fold (\<lambda>q g. g[?o q := ?F q g]) ?V (mContents gradient)"
    by (simp add: ComputeGradientConditionally_def conditionalSlice_contents g)
  have mem: "(ix, iy, iz) \<in> set ?V"
    using p by (simp add: set_nest3)
  then obtain pre post where split: "?V = pre @ (ix, iy, iz) # post"
    by (auto dest: split_list)
  have "distinct ?V"
    by (rule distinct_nest3) simp_all
  then have notin: "(ix, iy, iz) \<notin> set post"
    unfolding split by simp
  have other: "?o q \<noteq> ?o (ix, iy, iz)" if "q \<in> set post" for q
  proof -
    obtain jx jy jz where qq: "q = (jx, jy, jz)" by (cases q) auto
    from that have "q \<in> set ?V" unfolding split by simp
    then have "jx < d0" "jy < d1" unfolding qq by (simp_all add: set_nest3)
    moreover from that notin have "(jx, jy, jz) \<noteq> (ix, iy, iz)" unfolding qq by auto
    ultimately show ?thesis
      unfolding qq using p by (intro offset_neq) auto
  qed
  have inb: "?o (ix, iy, iz) < length (mContents gradient)"
    unfolding size using p by (intro offset_bound) auto
  have "fold (\<lambda>q g. g[?o q := ?F q g]) ?V (mContents gradient) ! ?o (ix, iy, iz)
      = ?F (ix, iy, iz) (fold (\<lambda>q g. g[?o q := ?F q g]) pre (mContents gradient))"
    by (rule fold_write_at [where off = ?o and F = ?F, OF split inb other])
  then show ?thesis
    unfolding res by blast
qed

text \<open>
  The macro yields the invalid value unless the two chosen flat offsets differ by
  exactly 1.
\<close>

lemma SET_PARTIAL_far:
  assumes "plusIndex - offset \<noteq> 1" "offset - minusIndex \<noteq> 1" "plusIndex - minusIndex \<noteq> 1"
  shows "SET_PARTIAL_DERIVATIVE_CONDITIONALLY scalarVals index dimMinus1 minusIndex plusIndex
           offset halfReciprocal reciprocal old = UNIFORM_GRID_INVALID_VALUE"
  using assms by (simp add: SET_PARTIAL_DERIVATIVE_CONDITIONALLY_def Let_def)

lemma SET_PARTIAL_own_invalid:
  assumes "IsNan (scalarVals ! offset)" "0 < offset"
  shows "SET_PARTIAL_DERIVATIVE_CONDITIONALLY scalarVals index dimMinus1 (offset - 1) (offset + 1)
           offset halfReciprocal reciprocal old = UNIFORM_GRID_INVALID_VALUE"
  using assms
  by (simp add: SET_PARTIAL_DERIVATIVE_CONDITIONALLY_def Let_def IsNan_def floatSub_def
      floatMul_def UNIFORM_GRID_INVALID_VALUE_def split: option.splits)

section \<open>The conditional gradient at an invalid sample\<close>

text \<open>
  C6. At every point \<^verbatim>\<open>ComputeGradientConditionally\<close> processes (all three indices at
  least 1) whose own sample is the not-a-number sentinel, the gradient it writes is
  invalid in all three components, whatever the neighbours hold. (The x component is
  either assigned the invalid value or computed from the point's own sample, which
  gives not-a-number; the y and z components are assigned the invalid value at every
  processed point.)
\<close>

theorem invalid_sample_gives_invalid_gradient:
  assumes shape: "ShapeMatches gradient scalarVals" "Size gradient = GetGridCapacity gradient"
    and dims: "mNumPoints scalarVals = (d0, d1, d2)"
    and p: "0 < ix" "ix < d0" "0 < iy" "iy < d1" "0 < iz" "iz < d2"
    and own: "IsNan (mContents scalarVals ! (ix + d0 * iy + d0 * d1 * iz))"
  shows "mContents (ComputeGradientConditionally gradient scalarVals) ! (ix + d0 * iy + d0 * d1 * iz)
     = Vec3 UNIFORM_GRID_INVALID_VALUE UNIFORM_GRID_INVALID_VALUE UNIFORM_GRID_INVALID_VALUE"
proof -
  note size = full_size [OF shape dims]
  have off: "ix + d0 * iy + d0 * d1 * iz = offsetX0Y0Z0 d0 (d0 * d1) (ix, iy, iz)"
    by (simp add: offsetX0Y0Z0_def)
  from p have big: "2 \<le> d0" "2 \<le> d1" by auto
  then have "2 * 2 \<le> d0 * d1" by (intro mult_le_mono)
  then have numXY: "4 \<le> d0 * d1" by simp
  obtain kx ky kz where k: "ix = Suc kx" "iy = Suc ky" "iz = Suc kz"
    using p by (metis gr0_implies_Suc)
  have xm: "offsetXMY0Z0 d0 (d0 * d1) (ix, iy, iz) = offsetX0Y0Z0 d0 (d0 * d1) (ix, iy, iz) - 1"
    and xp: "offsetXPY0Z0 d0 (d0 * d1) (ix, iy, iz) = offsetX0Y0Z0 d0 (d0 * d1) (ix, iy, iz) + 1"
    and pos: "0 < offsetX0Y0Z0 d0 (d0 * d1) (ix, iy, iz)"
    unfolding k by (simp_all add: offsetXMY0Z0_def offsetXPY0Z0_def offsetX0Y0Z0_def)
  have y: "offsetX0YPZ0 d0 (d0 * d1) (ix, iy, iz) - offsetX0Y0Z0 d0 (d0 * d1) (ix, iy, iz) = d0"
    "offsetX0Y0Z0 d0 (d0 * d1) (ix, iy, iz) - offsetX0YMZ0 d0 (d0 * d1) (ix, iy, iz) = d0"
    "offsetX0YPZ0 d0 (d0 * d1) (ix, iy, iz) - offsetX0YMZ0 d0 (d0 * d1) (ix, iy, iz) = 2 * d0"
    unfolding k by (simp_all add: offsetX0YPZ0_def offsetX0YMZ0_def offsetX0Y0Z0_def)
  have z: "offsetX0Y0ZP d0 (d0 * d1) (ix, iy, iz) - offsetX0Y0Z0 d0 (d0 * d1) (ix, iy, iz) = d0 * d1"
    "offsetX0Y0Z0 d0 (d0 * d1) (ix, iy, iz) - offsetX0Y0ZM d0 (d0 * d1) (ix, iy, iz) = d0 * d1"
    "offsetX0Y0ZP d0 (d0 * d1) (ix, iy, iz) - offsetX0Y0ZM d0 (d0 * d1) (ix, iy, iz) = 2 * (d0 * d1)"
    unfolding k by (simp_all add: offsetX0Y0ZP_def offsetX0Y0ZM_def offsetX0Y0Z0_def)
  have cx: "SET_PARTIAL_DERIVATIVE_CONDITIONALLY (mContents scalarVals) ix (d0 - 1)
      (offsetXMY0Z0 d0 (d0 * d1) (ix, iy, iz)) (offsetXPY0Z0 d0 (d0 * d1) (ix, iy, iz))
      (offsetX0Y0Z0 d0 (d0 * d1) (ix, iy, iz)) h r old = UNIFORM_GRID_INVALID_VALUE" for h r old
    unfolding xm xp by (rule SET_PARTIAL_own_invalid [OF own [unfolded off] pos])
  have cy: "SET_PARTIAL_DERIVATIVE_CONDITIONALLY (mContents scalarVals) iy (d1 - 1)
      (offsetX0YMZ0 d0 (d0 * d1) (ix, iy, iz)) (offsetX0YPZ0 d0 (d0 * d1) (ix, iy, iz))
      (offsetX0Y0Z0 d0 (d0 * d1) (ix, iy, iz)) h r old = UNIFORM_GRID_INVALID_VALUE" for h r old
    by (rule SET_PARTIAL_far) (use y big in simp_all)
  have cz: "SET_PARTIAL_DERIVATIVE_CONDITIONALLY (mContents scalarVals) iz (d2 - 1)
      (offsetX0Y0ZM d0 (d0 * d1) (ix, iy, iz)) (offsetX0Y0ZP d0 (d0 * d1) (ix, iy, iz))
      (offsetX0Y0Z0 d0 (d0 * d1) (ix, iy, iz)) h r old = UNIFORM_GRID_INVALID_VALUE" for h r old
    by (rule SET_PARTIAL_far) (use z numXY big in auto)
  have cg: "conditionalGradient (GetCellSpacing scalarVals) d0 d1 d2 (mContents scalarVals)
      (ix, iy, iz) old
     = Vec3 UNIFORM_GRID_INVALID_VALUE UNIFORM_GRID_INVALID_VALUE UNIFORM_GRID_INVALID_VALUE" for old
    unfolding conditionalGradient_def Let_def prod.case cx cy cz ..
  from ComputeGradientConditionally_value [OF dims size p] show ?thesis
    unfolding off cg by blast
qed

theorem invalid_sample_gives_invalid_gradient_witness:
  "mNumPoints (sampledGrid 3 3 3 (Vec3 1 1 1)
       (\<lambda>offset. if offset = 13 then None else Some (real offset)) :: float UniformGrid) = (3, 3, 3)
   \<and> Size (sampledGrid 3 3 3 (Vec3 1 1 1)
       (\<lambda>offset. Vec3 (Some 0) (Some 0) (Some 0)) :: float Vec3 UniformGrid)
      = GetGridCapacity (sampledGrid 3 3 3 (Vec3 1 1 1)
       (\<lambda>offset. Vec3 (Some 0) (Some 0) (Some 0)) :: float Vec3 UniformGrid)
   \<and> IsNan (mContents (sampledGrid 3 3 3 (Vec3 1 1 1)
       (\<lambda>offset. if offset = 13 then None else Some (real offset)) :: float UniformGrid) ! 13)
   \<and> mContents (ComputeGradientConditionally
        (sampledGrid 3 3 3 (Vec3 1 1 1) (\<lambda>offset. Vec3 (Some 0) (Some 0) (Some 0)))
        (sampledGrid 3 3 3 (Vec3 1 1 1)
           (\<lambda>offset. if offset = 13 then None else Some (real offset)))) ! 13
      = Vec3 None None None"
proof -
  let ?v = "sampledGrid 3 3 3 (Vec3 1 1 1)
       (\<lambda>offset. if offset = 13 then None else Some (real offset)) :: float UniformGrid"
  let ?g = "sampledGrid 3 3 3 (Vec3 1 1 1)
       (\<lambda>offset. Vec3 (Some 0) (Some 0) (Some 0)) :: float Vec3 UniformGrid"
  have d: "mNumPoints ?v = (3, 3, 3)" by (simp add: sampledGrid_def)
  have sh: "ShapeMatches ?g ?v"
    by (simp add: ShapeMatches_def sampledGrid_def)
  have sz: "Size ?g = GetGridCapacity ?g"
    by (simp add: Size_def GetGridCapacity_def GetNumPoints_def sampledGrid_def)
  have own: "IsNan (mContents ?v ! 13)" by (simp add: sampled_nth IsNan_def)
  have own': "IsNan (mContents ?v ! (1 + 3 * 1 + 3 * 3 * 1))" using own by simp
  have "mContents (ComputeGradientConditionally ?g ?v) ! (1 + 3 * 1 + 3 * 3 * 1)
      = Vec3 UNIFORM_GRID_INVALID_VALUE UNIFORM_GRID_INVALID_VALUE UNIFORM_GRID_INVALID_VALUE"
    by (rule invalid_sample_gives_invalid_gradient [OF sh sz d _ _ _ _ _ _ own']) simp_all
  then have r: "mContents (ComputeGradientConditionally ?g ?v) ! 13 = Vec3 None None None"
    by (simp add: UNIFORM_GRID_INVALID_VALUE_def)
  from d sz own r show ?thesis
    by (intro conjI)
qed

section \<open>The conditional gradient at a valid sample\<close>

text \<open>
  C5 does not hold on the code. On the \<open>3 \<times> 3 \<times> 3\<close> grid with unit spacing whose samples are
  all valid and equal to the x index, the centre \<open>(1, 1, 1)\<close> has both neighbours valid
  and in bounds on every axis, and the gradient written there is invalid in all three
  components, where centred differences would give \<open>(1, 0, 0)\<close>.
\<close>

theorem conditional_gradient_never_centered:
  "\<not> IsNan (mContents (sampledGrid 3 3 3 (Vec3 1 1 1) (\<lambda>offset. Some (real (offset mod 3)))
               :: float UniformGrid) ! 13)
   \<and> mContents (sampledGrid 3 3 3 (Vec3 1 1 1) (\<lambda>offset. Some (real (offset mod 3)))
               :: float UniformGrid) ! 12 = Some 0
   \<and> mContents (sampledGrid 3 3 3 (Vec3 1 1 1) (\<lambda>offset. Some (real (offset mod 3)))
               :: float UniformGrid) ! 14 = Some 2
   \<and> mContents (ComputeGradientConditionally
        (sampledGrid 3 3 3 (Vec3 1 1 1) (\<lambda>offset. Vec3 (Some 0) (Some 0) (Some 0)))
        (sampledGrid 3 3 3 (Vec3 1 1 1) (\<lambda>offset. Some (real (offset mod 3))))) ! 13
      = Vec3 None None None"
proof -
  let ?v = "sampledGrid 3 3 3 (Vec3 1 1 1) (\<lambda>offset. Some (real (offset mod 3))) :: float UniformGrid"
  let ?g = "sampledGrid 3 3 3 (Vec3 1 1 1)
       (\<lambda>offset. Vec3 (Some 0) (Some 0) (Some 0)) :: float Vec3 UniformGrid"
  have d: "mNumPoints ?v = (3, 3, 3)" by (simp add: sampledGrid_def)
  have sz: "length (mContents ?g) = 3 * 3 * 3" by (simp add: sampledGrid_def)
  have cg: "conditionalGradient (GetCellSpacing ?v) 3 3 3 (mContents ?v) (1, 1, 1) old
      = Vec3 None None None" for old
    by (simp add: conditionalGradient_def Let_def SET_PARTIAL_DERIVATIVE_CONDITIONALLY_def
        sampled_nth IsNan_def UNIFORM_GRID_INVALID_VALUE_def offsetX0Y0Z0_def
        offsetXMY0Z0_def offsetXPY0Z0_def offsetX0YMZ0_def offsetX0YPZ0_def
        offsetX0Y0ZM_def offsetX0Y0ZP_def)
  have "\<exists>old. mContents (ComputeGradientConditionally ?g ?v) ! offsetX0Y0Z0 3 (3 * 3) (1, 1, 1)
      = conditionalGradient (GetCellSpacing ?v) 3 3 3 (mContents ?v) (1, 1, 1) old"
    by (rule ComputeGradientConditionally_value [OF d sz]) simp_all
  then have r: "mContents (ComputeGradientConditionally ?g ?v) ! 13 = Vec3 None None None"
    unfolding cg by (simp add: offsetX0Y0Z0_def)
  show ?thesis
    unfolding r by (simp add: sampled_nth IsNan_def)
qed

section \<open>Values written by the Jacobian, the curl and the Laplacian\<close>














section \<open>Degenerate spacing\<close>





section \<open>Standard deviations\<close>

text \<open>
  C10 holds for \<^verbatim>\<open>FindValueStats\<close> and not for the relaxation step. \<^verbatim>\<open>FindValueStats\<close> takes the square root of
  \<open>max variance 0\<close>, so what it returns is never negative. The relaxation step cooks its
  residual tallies with \<^verbatim>\<open>fsqrtf( variance )\<close>: the variance is passed on as it is, with
  no floor. In exact arithmetic the variance of the tallies of a pass cannot be
  negative; in single precision it can. A red pass on a \<open>3 \<times> 3 \<times> 7\<close> grid with unit
  spacing, zero solution and source \<open>(-183, 0, 0)\<close> everywhere updates three points with
  the same residual, and single-precision accumulation leaves the tallies
  \<open>mMean = 1289257/8192\<close> and \<open>mStdDev = 4227151/512\<close> with count 3; at these tallies
  the step hands \<^verbatim>\<open>fsqrtf\<close> the negative number \<open>-204433/603979776\<close>.
\<close>

theorem residual_variance_not_floored:
  "mStdDev (cookResidualStats fsqrtf
       \<lparr> mMean = 1289257 / 8192, mStdDev = 4227151 / 512, mMin = lo, mMax = hi \<rparr> 3)
     = fsqrtf (- (204433 / 603979776))
   \<and> mStdDev (cookResidualStats fsqrtf residualStats residualsCount)
     = fsqrtf (mStdDev residualStats / real residualsCount
                - (mMean residualStats / real residualsCount)\<^sup>2)
   \<and> snd (snd (snd (FindValueStats scalarGrid))) \<ge> 0"
  by (simp add: cookResidualStats_def Let_def Pow2_def FindValueStats_def power2_eq_square)

end
